theory Spec2Isabelle
  imports Complex_Main "HOL-Library.Char_ord" "HOL-Library.List_Lexorder"
begin

section \<open>Idle Stuff: the game core and its terminal input channel\<close>

text \<open>
  A shallow embedding of \<^verbatim>\<open>idle_stuff_core.py\<close> and of the input path of
  \<^verbatim>\<open>ncurses_display.py\<close>.

  Conventions of the embedding:
  \<^item> Python \<^verbatim>\<open>float\<close> values are read as real numbers and Python \<^verbatim>\<open>int\<close>
    values as integers; rounding of IEEE doubles is not modelled.
  \<^item> A Python \<^verbatim>\<open>dict\<close> is an association list in insertion order; every slot holds
    an object of its own (the program never stores one object under two keys).
  \<^item> In-place mutation is explicit state passing: a method takes the objects it
    touches and returns them updated.
  \<^item> The module-level generator behind \<^verbatim>\<open>random.random()\<close> is the sequence of
    the values it will return next.
  \<^item> The SQLite connection is the contents of its five tables, each a list of rows
    in insertion order. A violated primary key is the error value
    \<^verbatim>\<open>IntegrityError\<close>; an integer outside the signed 64-bit range of an
    \<^verbatim>\<open>INTEGER\<close> column is the error value \<^verbatim>\<open>OverflowError\<close>. A \<^verbatim>\<open>SELECT\<close> on a
    leading part of a primary key is answered through the index of that key: the rows
    come back in the order of the rest of the key, text compared byte by byte. The two
    timestamp columns of \<^verbatim>\<open>game_state\<close> are left out.
  \<^item> A call of \<^verbatim>\<open>tick\<close> that raises is the error value together with
    \<^verbatim>\<open>self.state\<close> as the call leaves it; what a refused save leaves in its open
    transaction is not described.
\<close>

subsection \<open>Dictionaries\<close>

type_synonym ('k, 'v) dict = "('k \<times> 'v) list"

text \<open>\<^verbatim>\<open>k in d\<close>\<close>

definition dict_contains :: "('k, 'v) dict \<Rightarrow> 'k \<Rightarrow> bool" where
  "dict_contains d k = (map_of d k \<noteq> None)"

text \<open>\<^verbatim>\<open>d.get(k, default)\<close>\<close>

definition dict_get :: "('k, 'v) dict \<Rightarrow> 'k \<Rightarrow> 'v \<Rightarrow> 'v" where
  "dict_get d k dflt = (case map_of d k of None \<Rightarrow> dflt | Some v \<Rightarrow> v)"

text \<open>\<^verbatim>\<open>d[k] = v\<close>: an existing key keeps its position, a new key goes last.\<close>

fun dict_set :: "'k \<Rightarrow> 'v \<Rightarrow> ('k, 'v) dict \<Rightarrow> ('k, 'v) dict" where
  "dict_set k v [] = [(k, v)]"
| "dict_set k v ((k', v') # d) = (if k' = k then (k, v) # d else (k', v') # dict_set k v d)"

text \<open>\<^verbatim>\<open>d[k].field = ...\<close>: the object stored under \<open>k\<close> is changed in place.\<close>

fun dict_modify :: "'k \<Rightarrow> ('v \<Rightarrow> 'v) \<Rightarrow> ('k, 'v) dict \<Rightarrow> ('k, 'v) dict" where
  "dict_modify k f [] = []"
| "dict_modify k f ((k', v') # d) = (if k' = k then (k', f v') # d else (k', v') # dict_modify k f d)"

subsection \<open>Core game data structures\<close>

record EntityTraits =
  efficiency :: real
  learning_rate :: real
  cooperation :: real
  stamina :: real

text \<open>The fields \<^verbatim>\<open>id\<close> and \<^verbatim>\<open>name\<close> of the source carry the prefix of their class.\<close>

record Entity =
  entity_id :: string
  entity_name :: string
  entity_type :: string
  traits :: EntityTraits
  experience :: "(string, real) dict"
  current_task :: "string option"

record Resource =
  resource_name :: string
  amount :: real
  production_rate :: real

record GameState =
  tick :: int
  resources :: "(string, Resource) dict"
  entities :: "(string, Entity) dict"
  technologies :: "string list"
  prestige_tokens :: int
  player_boost :: real

subsection \<open>The random generator\<close>

type_synonym rng = "nat \<Rightarrow> real"

text \<open>\<^verbatim>\<open>random.random()\<close>: returns the next value and advances the generator.\<close>

definition random_random :: "rng \<Rightarrow> real \<times> rng" where
  "random_random g = (g 0, \<lambda>n. g (Suc n))"

subsection \<open>Persistence\<close>

datatype error = IntegrityError | ZeroDivisionError | OverflowError

type_synonym game_state_row = "int \<times> int \<times> int \<times> real"
type_synonym resources_row = "int \<times> string \<times> real \<times> real"
type_synonym entities_row =
  "int \<times> string \<times> string \<times> string \<times> string option \<times> real \<times> real \<times> real \<times> real"
type_synonym entity_experience_row = "int \<times> string \<times> string \<times> real"
type_synonym technologies_row = "int \<times> string \<times> int"

record GameDatabase =
  game_state_tbl :: "game_state_row list"
  resources_tbl :: "resources_row list"
  entities_tbl :: "entities_row list"
  entity_experience_tbl :: "entity_experience_row list"
  technologies_tbl :: "technologies_row list"

text \<open>The values an \<^verbatim>\<open>INTEGER\<close> column takes: the signed 64-bit integers.\<close>

definition sqlite_integer :: "int \<Rightarrow> bool" where
  "sqlite_integer v = (- (2 ^ 63) \<le> v \<and> v < 2 ^ 63)"

text \<open>\<^verbatim>\<open>INSERT INTO t\<close>: refused when a row with the same primary key is present.\<close>



definition insert_row :: "('r \<Rightarrow> 'k) \<Rightarrow> 'r \<Rightarrow> 'r list \<Rightarrow> error + 'r list" where
  "insert_row pk r t = (if pk r \<in> pk ` set t then Inl IntegrityError else Inr (t @ [r]))"

fun insert_rows :: "('r \<Rightarrow> 'k) \<Rightarrow> 'r list \<Rightarrow> 'r list \<Rightarrow> error + 'r list" where
  "insert_rows pk [] t = Inr t"
| "insert_rows pk (r # rs) t =
     (case insert_row pk r t of Inl e \<Rightarrow> Inl e | Inr t' \<Rightarrow> insert_rows pk rs t')"

text \<open>The primary keys of the tables.\<close>

definition resources_pk :: "resources_row \<Rightarrow> int \<times> string" where
  "resources_pk = (\<lambda>(game_id, name, _). (game_id, name))"

definition entities_pk :: "entities_row \<Rightarrow> int \<times> string" where
  "entities_pk = (\<lambda>(game_id, eid, _). (game_id, eid))"

definition entity_experience_pk :: "entity_experience_row \<Rightarrow> int \<times> string \<times> string" where
  "entity_experience_pk = (\<lambda>(game_id, eid, task_type, _). (game_id, eid, task_type))"

definition technologies_pk :: "technologies_row \<Rightarrow> int \<times> string" where
  "technologies_pk = (\<lambda>(game_id, tech_name, _). (game_id, tech_name))"

definition entity_row :: "int \<Rightarrow> Entity \<Rightarrow> entities_row" where
  "entity_row game_id e =
     (game_id, entity_id e, entity_name e, entity_type e, current_task e,
      efficiency (traits e), learning_rate (traits e),
      cooperation (traits e), stamina (traits e))"

text \<open>
  The loop over \<^verbatim>\<open>state.entities.values()\<close> in \<^verbatim>\<open>save_game_state\<close>: one row per
  entity, then one row per item of its experience.
\<close>

fun save_entities ::
  "int \<Rightarrow> Entity list \<Rightarrow> entities_row list \<times> entity_experience_row list \<Rightarrow>
   error + (entities_row list \<times> entity_experience_row list)" where
  "save_entities game_id [] tbls = Inr tbls"
| "save_entities game_id (e # es) (et, xt) =
     (case insert_row entities_pk (entity_row game_id e) et of
        Inl err \<Rightarrow> Inl err
      | Inr et' \<Rightarrow>
          (case insert_rows entity_experience_pk
                  (map (\<lambda>(task_type, x). (game_id, entity_id e, task_type, x)) (experience e)) xt of
             Inl err \<Rightarrow> Inl err
           | Inr xt' \<Rightarrow> save_entities game_id es (et', xt')))"

text \<open>
  \<^verbatim>\<open>save_game_state\<close>. The first statement binds the tick and the prestige tokens to
  \<^verbatim>\<open>INTEGER\<close> columns and raises before anything is written when one of them does not
  fit.
\<close>

definition save_game_state :: "GameDatabase \<Rightarrow> GameState \<Rightarrow> error + GameDatabase" where
  "save_game_state db s =
     (if \<not> (sqlite_integer (tick s) \<and> sqlite_integer (prestige_tokens s)) then Inl OverflowError
      else
      let gs = filter (\<lambda>(i, _). i \<noteq> 1) (game_state_tbl db)
                 @ [(1, tick s, prestige_tokens s, player_boost s)];
          game_id = 1;
          rt = filter (\<lambda>(g, _). g \<noteq> game_id) (resources_tbl db);
          et = filter (\<lambda>(g, _). g \<noteq> game_id) (entities_tbl db);
          xt = filter (\<lambda>(g, _). g \<noteq> game_id) (entity_experience_tbl db);
          tt = filter (\<lambda>(g, _). g \<noteq> game_id) (technologies_tbl db)
      in case insert_rows resources_pk
                (map (\<lambda>r. (game_id, resource_name r, amount r, production_rate r))
                     (map snd (resources s))) rt of
           Inl err \<Rightarrow> Inl err
         | Inr rt' \<Rightarrow>
            (case save_entities game_id (map snd (entities s)) (et, xt) of
               Inl err \<Rightarrow> Inl err
             | Inr (et', xt') \<Rightarrow>
                (case insert_rows technologies_pk
                        (map (\<lambda>tech. (game_id, tech, tick s)) (technologies s)) tt of
                   Inl err \<Rightarrow> Inl err
                 | Inr tt' \<Rightarrow>
                     Inr \<lparr>game_state_tbl = gs, resources_tbl = rt', entities_tbl = et',
                          entity_experience_tbl = xt', technologies_tbl = tt'\<rparr>)))"

text \<open>
  \<^verbatim>\<open>SELECT ... WHERE\<close> with a condition on the leading columns of the primary key: the
  rows that match, in the order of the remaining column of the key.
\<close>

definition select_by_index :: "('r \<Rightarrow> 'k::linorder) \<Rightarrow> ('r \<Rightarrow> bool) \<Rightarrow> 'r list \<Rightarrow> 'r list" where
  "select_by_index rest_of_key cond t = sort_key rest_of_key (filter cond t)"

text \<open>The entity built from one row of \<^verbatim>\<open>entities\<close> and the experience rows selected for it.\<close>

definition load_entity :: "entity_experience_row list \<Rightarrow> entities_row \<Rightarrow> Entity" where
  "load_entity xt = (\<lambda>(game_id, eid, name, etype, task, eff, lr, coop, stam).
     \<lparr>entity_id = eid, entity_name = name, entity_type = etype,
      traits = \<lparr>efficiency = eff, learning_rate = lr, cooperation = coop, stamina = stam\<rparr>,
      experience =
        fold (\<lambda>(_, _, task_type, x) d. dict_set task_type x d)
             (select_by_index (\<lambda>(_, _, task_type, _). task_type)
                (\<lambda>(g, i, _). g = game_id \<and> i = eid) xt) [],
      current_task = task\<rparr>)"

definition load_game_state :: "GameDatabase \<Rightarrow> int \<Rightarrow> GameState option" where
  "load_game_state db game_id =
     (case filter (\<lambda>(i, _). i = game_id) (game_state_tbl db) of
        [] \<Rightarrow> None
      | (_, t, p, b) # _ \<Rightarrow>
          Some \<lparr>tick = t,
                resources =
                  fold (\<lambda>(_, name, a, pr) d.
                          dict_set name \<lparr>resource_name = name, amount = a, production_rate = pr\<rparr> d)
                       (select_by_index (\<lambda>(_, name, _). name)
                          (\<lambda>(g, _). g = game_id) (resources_tbl db)) [],
                entities =
                  fold (\<lambda>row d. let e = load_entity (entity_experience_tbl db) row
                                 in dict_set (entity_id e) e d)
                       (select_by_index (\<lambda>(_, eid, _). eid)
                          (\<lambda>(g, _). g = game_id) (entities_tbl db)) [],
                technologies =
                  map (\<lambda>(_, tech_name, _). tech_name)
                      (select_by_index (\<lambda>(_, tech_name, _). tech_name)
                         (\<lambda>(g, _). g = game_id) (technologies_tbl db)),
                prestige_tokens = p,
                player_boost = b\<rparr>)"

subsection \<open>Game logic\<close>

record GameLogic =
  database :: GameDatabase
  state :: GameState
  auto_save_interval :: int

type_synonym Event = "(string, string) dict"

definition discovery_event :: "Entity \<Rightarrow> Event" where
  "discovery_event e =
     [(''type'', ''discovery''), (''entity'', entity_name e),
      (''message'', entity_name e @ '' found an efficient energy source!'')]"

definition system_event :: Event where
  "system_event = [(''type'', ''system''), (''message'', ''Game auto-saved'')]"

text \<open>\<^verbatim>\<open>save_game\<close>: the database object is always present, so the save always runs.\<close>

definition save_game :: "GameLogic \<Rightarrow> error + GameLogic" where
  "save_game gl =
     (case save_game_state (database gl) (state gl) of
        Inl err \<Rightarrow> Inl err
      | Inr db \<Rightarrow> Inr (gl\<lparr>database := db\<rparr>))"

text \<open>
  \<^verbatim>\<open>_process_entity_action\<close>: takes \<^verbatim>\<open>self.state.resources\<close>, the entity and the
  generator; returns the event (if any) and the three of them after the call.
\<close>

definition process_entity_action ::
  "(string, Resource) dict \<Rightarrow> Entity \<Rightarrow> rng \<Rightarrow>
   Event option \<times> (string, Resource) dict \<times> Entity \<times> rng" where
  "process_entity_action rs e g =
     (if current_task e = Some ''gathering'' then
        let base_gathering = 1;
            efficiency_mult = efficiency (traits e);
            experience_mult = 1 + dict_get (experience e) ''gathering'' 0 * (1 / 10);
            gathered = base_gathering * efficiency_mult * experience_mult;
            rs' = (if dict_contains rs ''energy''
                   then dict_modify ''energy'' (\<lambda>r. r\<lparr>amount := amount r + gathered\<rparr>) rs
                   else rs);
            e' = e\<lparr>experience :=
                     dict_set ''gathering''
                       (dict_get (experience e) ''gathering'' 0 + learning_rate (traits e))
                       (experience e)\<rparr>;
            (r, g') = random_random g
        in (if r < 5 / 100 then Some (discovery_event e') else None, rs', e', g')
      else (None, rs, e, g))"

text \<open>The loop \<^verbatim>\<open>for entity in self.state.entities.values()\<close> of \<^verbatim>\<open>tick\<close>.\<close>

fun process_entities ::
  "(string, Resource) dict \<Rightarrow> (string, Entity) dict \<Rightarrow> rng \<Rightarrow>
   Event list \<times> (string, Resource) dict \<times> (string, Entity) dict \<times> rng" where
  "process_entities rs [] g = ([], rs, [], g)"
| "process_entities rs ((k, e) # es) g =
     (case process_entity_action rs e g of
        (event, rs1, e1, g1) \<Rightarrow>
          (case process_entities rs1 es g1 of
             (events, rs2, es2, g2) \<Rightarrow>
               ((case event of None \<Rightarrow> events | Some ev \<Rightarrow> ev # events),
                rs2, (k, e1) # es2, g2)))"

definition energy_rate :: "(string, Entity) dict \<Rightarrow> real" where
  "energy_rate es =
     sum_list (map (\<lambda>e. efficiency (traits e) * (1 + dict_get (experience e) ''gathering'' 0 * (1 / 10)))
                   (filter (\<lambda>e. entity_type e = ''gatherer'' \<and> current_task e = Some ''gathering'')
                           (map snd es)))"

definition update_production_rates :: "GameState \<Rightarrow> GameState" where
  "update_production_rates s =
     (if dict_contains (resources s) ''energy''
      then s\<lparr>resources :=
               dict_modify ''energy'' (\<lambda>r. r\<lparr>production_rate := energy_rate (entities s)\<rparr>)
                 (resources s)\<rparr>
      else s)"

text \<open>The loop \<^verbatim>\<open>for resource in self.state.resources.values()\<close> of \<^verbatim>\<open>tick\<close>.\<close>

definition apply_production :: "(string, Resource) dict \<Rightarrow> (string, Resource) dict" where
  "apply_production rs =
     map (\<lambda>(k, r). (k, if production_rate r > 0
                        then r\<lparr>amount := amount r + production_rate r\<rparr> else r)) rs"

record EntityDict =
  ed_id :: string
  ed_name :: string
  ed_type :: string
  ed_task :: string
  ed_efficiency :: real
  ed_experience :: real
  ed_traits :: EntityTraits

definition entity_to_dict :: "Entity \<Rightarrow> EntityDict" where
  "entity_to_dict e =
     \<lparr>ed_id = entity_id e, ed_name = entity_name e, ed_type = entity_type e,
      ed_task = (case current_task e of None \<Rightarrow> ''idle''
                 | Some t \<Rightarrow> if t = [] then ''idle'' else t),
      ed_efficiency = efficiency (traits e),
      ed_experience = sum_list (map snd (experience e)),
      ed_traits = traits e\<rparr>"

record TickData =
  td_tick :: int
  td_events :: "Event list"
  td_resources :: "(string, real) dict"
  td_production_rates :: "(string, real) dict"
  td_entities :: "(string, EntityDict) dict"

definition tick_data :: "GameState \<Rightarrow> Event list \<Rightarrow> TickData" where
  "tick_data s events =
     \<lparr>td_tick = tick s, td_events = events,
      td_resources = map (\<lambda>(name, r). (name, amount r)) (resources s),
      td_production_rates = map (\<lambda>(name, r). (name, production_rate r)) (resources s),
      td_entities = map (\<lambda>(eid, e). (eid, entity_to_dict e)) (entities s)\<rparr>"

text \<open>
  The first part of \<^verbatim>\<open>tick\<close>, up to and including the application of the production
  rates: the state after it, the events so far and the generator.
\<close>

definition tick_simulate :: "GameState \<Rightarrow> rng \<Rightarrow> Event list \<times> GameState \<times> rng" where
  "tick_simulate s g =
     (let s1 = s\<lparr>tick := tick s + 1\<rparr>
      in case process_entities (resources s1) (entities s1) g of
           (events, rs, es, g') \<Rightarrow>
             let s2 = s1\<lparr>resources := rs, entities := es\<rparr>;
                 s3 = update_production_rates s2;
                 s4 = s3\<lparr>resources := apply_production (resources s3)\<rparr>
             in (events, s4, g'))"

text \<open>
  \<^verbatim>\<open>GameLogic.tick\<close>. The remainder by the interval raises when the interval is zero,
  and the save may raise; both come after the state has been changed in place, so the
  error is paired with the state the call leaves behind.
\<close>

definition GameLogic_tick ::
  "GameLogic \<Rightarrow> rng \<Rightarrow> (error \<times> GameState) + (TickData \<times> GameLogic \<times> rng)" where
  "GameLogic_tick gl g =
     (case tick_simulate (state gl) g of
        (events, s, g') \<Rightarrow>
          if auto_save_interval gl = 0 then Inl (ZeroDivisionError, s)
          else if tick s mod auto_save_interval gl = 0 then
            (case save_game (gl\<lparr>state := s\<rparr>) of
               Inl err \<Rightarrow> Inl (err, s)
             | Inr gl' \<Rightarrow> Inr (tick_data s (events @ [system_event]), gl', g'))
          else Inr (tick_data s events, gl\<lparr>state := s\<rparr>, g'))"

text \<open>\<^verbatim>\<open>self.state\<close> after a call of \<^verbatim>\<open>tick\<close>, whether it returned or raised.\<close>

definition state_after :: "(error \<times> GameState) + (TickData \<times> GameLogic \<times> rng) \<Rightarrow> GameState" where
  "state_after res = (case res of Inl (err, s) \<Rightarrow> s | Inr (d, gl', g') \<Rightarrow> state gl')"

text \<open>
  \<^verbatim>\<open>apply_player_boost\<close>. The returned string is \<^verbatim>\<open>"Boost failed!"\<close> or the message
  built from the entity's name and the boosted amount.
\<close>

datatype boost_message = Boost_failed | Boosted string real

definition apply_player_boost :: "GameState \<Rightarrow> string \<Rightarrow> real \<Rightarrow> boost_message \<times> GameState" where
  "apply_player_boost s eid boost_multiplier =
     (case map_of (entities s) eid of
        None \<Rightarrow> (Boost_failed, s)
      | Some entity \<Rightarrow>
          if current_task entity = Some ''gathering'' then
            let boosted_amount = boost_multiplier * efficiency (traits entity);
                s' = (if dict_contains (resources s) ''energy''
                      then s\<lparr>resources :=
                               dict_modify ''energy'' (\<lambda>r. r\<lparr>amount := amount r + boosted_amount\<rparr>)
                                 (resources s)\<rparr>
                      else s)
            in (Boosted (entity_name entity) boosted_amount, s')
          else (Boost_failed, s))"


text \<open>
  \<^verbatim>\<open>_generate_entity\<close>: the traits and the name are the values drawn from the random
  module, taken here as arguments.
\<close>

definition generate_entity :: "string \<Rightarrow> string \<Rightarrow> EntityTraits \<Rightarrow> string \<Rightarrow> Entity" where
  "generate_entity eid etype tr nm =
     \<lparr>entity_id = eid, entity_name = nm, entity_type = etype, traits = tr,
      experience = [(''gathering'', 0)], current_task = Some ''gathering''\<rparr>"

text \<open>\<^verbatim>\<open>GameState()\<close> with the defaults of the dataclass.\<close>

definition new_GameState :: GameState where
  "new_GameState =
     \<lparr>tick = 0, resources = [], entities = [], technologies = [],
      prestige_tokens = 0, player_boost = 1\<rparr>"

text \<open>\<^verbatim>\<open>_initialize_base_game\<close>; the three entities are \<^verbatim>\<open>entity_0\<close> to \<^verbatim>\<open>entity_2\<close>.\<close>

definition initialize_base_game ::
  "GameState \<Rightarrow> EntityTraits \<times> string \<Rightarrow> EntityTraits \<times> string \<Rightarrow> EntityTraits \<times> string \<Rightarrow>
   GameState" where
  "initialize_base_game s p0 p1 p2 =
     (let s1 = s\<lparr>resources :=
                   dict_set ''energy''
                     \<lparr>resource_name = ''energy'', amount = 10, production_rate = 0\<rparr>
                     (resources s)\<rparr>
      in fold (\<lambda>(eid, tr, nm) s'.
                 let entity = generate_entity eid ''gatherer'' tr nm
                 in s'\<lparr>entities := dict_set (entity_id entity) entity (entities s')\<rparr>)
              [(''entity_0'', p0), (''entity_1'', p1), (''entity_2'', p2)] s1)"

subsection \<open>The input queue of the terminal display\<close>

text \<open>
  Of \<^verbatim>\<open>NCursesDisplay\<close> only the fields that \<^verbatim>\<open>_input_handler\<close> and
  \<^verbatim>\<open>get_input\<close> touch. \<^verbatim>\<open>queue.Queue()\<close> has no size limit: it is the list of the
  keys put and not yet taken, oldest first.
\<close>

record NCursesDisplay =
  input_queue :: "int list"
  current_selection :: int
  selectable_items :: "(string \<times> string \<times> string) list"

text \<open>The key codes of the curses library.\<close>

definition KEY_UP :: int where
  "KEY_UP = 259"

definition KEY_DOWN :: int where
  "KEY_DOWN = 258"

definition ord :: "char \<Rightarrow> int" where
  "ord c = of_char c"

text \<open>One turn of the loop of \<^verbatim>\<open>_input_handler\<close>, \<open>key\<close> being what \<^verbatim>\<open>getch()\<close> returned.\<close>

definition input_handler_step :: "NCursesDisplay \<Rightarrow> int \<Rightarrow> NCursesDisplay" where
  "input_handler_step d key =
     (if key \<noteq> - 1 then d\<lparr>input_queue := input_queue d @ [key]\<rparr> else d)"

definition input_handler :: "NCursesDisplay \<Rightarrow> int list \<Rightarrow> NCursesDisplay" where
  "input_handler d keys = fold (\<lambda>key d'. input_handler_step d' key) keys d"

definition get_input :: "NCursesDisplay \<Rightarrow> string option \<times> NCursesDisplay" where
  "get_input d =
     (case input_queue d of
        [] \<Rightarrow> (None, d)
      | key # q \<Rightarrow>
          let d1 = d\<lparr>input_queue := q\<rparr>
          in if key = KEY_UP then
               (Some ''nav_up'', d1\<lparr>current_selection := max 0 (current_selection d1 - 1)\<rparr>)
             else if key = KEY_DOWN then
               (Some ''nav_down'',
                d1\<lparr>current_selection :=
                     min (int (length (selectable_items d1)) - 1) (current_selection d1 + 1)\<rparr>)
             else if key = ord CHR '' '' then
               (if 0 \<le> current_selection d1 \<and>
                   current_selection d1 < int (length (selectable_items d1))
                then let item = selectable_items d1 ! nat (current_selection d1)
                     in (Some (''boost:'' @ fst (snd item)), d1)
                else (Some ''boost'', d1))
             else if key = ord CHR ''s'' \<or> key = ord CHR ''S'' then (Some ''save'', d1)
             else if key = ord CHR ''q'' \<or> key = ord CHR ''Q'' then (Some ''quit'', d1)
             else if key = ord CHR ''r'' \<or> key = ord CHR ''R'' then
               (Some ''reset'', d1\<lparr>current_selection := 0\<rparr>)
             else if key = ord CHR ''+'' \<or> key = ord CHR ''='' then (Some ''speed_up'', d1)
             else if key = ord CHR ''-'' then (Some ''speed_down'', d1)
             else (None, d1))"

section \<open>Vocabulary of the statements\<close>

definition gathering :: "Entity \<Rightarrow> bool" where
  "gathering e = (current_task e = Some ''gathering'')"

text \<open>What one gathering entity adds to \<^verbatim>\<open>energy\<close> in the yield step.\<close>

definition gathering_yield :: "Entity \<Rightarrow> real" where
  "gathering_yield e =
     efficiency (traits e) * (1 + dict_get (experience e) ''gathering'' 0 * (1 / 10))"

definition total_yield :: "Entity list \<Rightarrow> real" where
  "total_yield es = sum_list (map gathering_yield (filter gathering es))"

text \<open>The entity after its action: a gathering entity has gained its learning rate.\<close>

definition gain_experience :: "Entity \<Rightarrow> Entity" where
  "gain_experience e =
     (if gathering e
      then e\<lparr>experience := dict_set ''gathering''
               (dict_get (experience e) ''gathering'' 0 + learning_rate (traits e)) (experience e)\<rparr>
      else e)"

definition add_amount :: "string \<Rightarrow> real \<Rightarrow> (string, Resource) dict \<Rightarrow> (string, Resource) dict" where
  "add_amount k x rs = dict_modify k (\<lambda>r. r\<lparr>amount := amount r + x\<rparr>) rs"

text \<open>The discovery events of a tick: one draw per gathering entity, in the order of the dict.\<close>

fun discoveries :: "Entity list \<Rightarrow> rng \<Rightarrow> Event list" where
  "discoveries [] g = []"
| "discoveries (e # es) g =
     (if gathering e
      then (if g 0 < 5 / 100 then [discovery_event (gain_experience e)] else [])
             @ discoveries es (\<lambda>n. g (Suc n))
      else discoveries es g)"

text \<open>Same keys in the same order, and no amount has gone down.\<close>

definition amounts_le :: "(string, Resource) dict \<Rightarrow> (string, Resource) dict \<Rightarrow> bool" where
  "amounts_le rs rs' = list_all2 (\<lambda>(k, r) (k', r'). k = k' \<and> amount r \<le> amount r') rs rs'"

text \<open>Every task of \<open>e\<close> is a task of \<open>e'\<close> with at least the same experience.\<close>

definition experience_le :: "Entity \<Rightarrow> Entity \<Rightarrow> bool" where
  "experience_le e e' =
     list_all (\<lambda>t. case map_of (experience e) t of None \<Rightarrow> True
                 | Some x \<Rightarrow> (case map_of (experience e') t of None \<Rightarrow> False | Some y \<Rightarrow> x \<le> y))
       (map fst (experience e))"

definition experiences_le :: "(string, Entity) dict \<Rightarrow> (string, Entity) dict \<Rightarrow> bool" where
  "experiences_le es es' = list_all2 (\<lambda>(k, e) (k', e'). k = k' \<and> experience_le e e') es es'"

definition nonneg_entity :: "Entity \<Rightarrow> bool" where
  "nonneg_entity e =
     (0 \<le> efficiency (traits e) \<and> 0 \<le> learning_rate (traits e) \<and>
      list_all (\<lambda>(t, x). 0 \<le> x) (experience e))"

definition nonneg_state :: "GameState \<Rightarrow> bool" where
  "nonneg_state s =
     (list_all (\<lambda>(k, e). nonneg_entity e) (entities s) \<and>
      list_all (\<lambda>(k, r). 0 \<le> amount r) (resources s))"

text \<open>The entity of the scenario: a gatherer at work, with no experience yet.\<close>

definition scenario_entity :: "Entity \<Rightarrow> bool" where
  "scenario_entity e =
     (entity_type e = ''gatherer'' \<and> current_task e = Some ''gathering'' \<and>
      efficiency (traits e) = 1 \<and> learning_rate (traits e) = 1 / 10 \<and>
      experience e = [(''gathering'', 0)])"

text \<open>
  The production rate as C4 words it: the sum, over the entities whose current task feeds
  the resource, of efficiency times (1 + experience of that task / 10). In the source the
  only task is \<^verbatim>\<open>gathering\<close>, and it feeds \<^verbatim>\<open>energy\<close>.
\<close>

definition task_feeds :: "string \<Rightarrow> string \<Rightarrow> bool" where
  "task_feeds task res = (task = ''gathering'' \<and> res = ''energy'')"

definition claimed_production_rate :: "(string, Entity) dict \<Rightarrow> string \<Rightarrow> real" where
  "claimed_production_rate es res =
     sum_list (map (\<lambda>e. case current_task e of None \<Rightarrow> 0
                        | Some t \<Rightarrow> efficiency (traits e) * (1 + dict_get (experience e) t 0 * (1 / 10)))
                   (filter (\<lambda>e. case current_task e of None \<Rightarrow> False | Some t \<Rightarrow> task_feeds t res)
                           (map snd es)))"

text \<open>The number of draws a tick takes from the generator.\<close>

definition draws :: "GameState \<Rightarrow> nat" where
  "draws s = length (filter gathering (map snd (entities s)))"

text \<open>A dict whose keys are distinct and are the identifiers stored in its values.\<close>

definition keyed_by :: "('v \<Rightarrow> 'k) \<Rightarrow> ('k, 'v) dict \<Rightarrow> bool" where
  "keyed_by f d = (distinct (map fst d) \<and> list_all (\<lambda>(k, v). f v = k) d)"

text \<open>
  The states whose dicts and lists the tables give back as they are: resources keyed by
  their names, entities keyed by their ids, no task twice in an experience dict, no
  technology twice, and all of them in ascending order of their keys.
\<close>

definition ordered_state :: "GameState \<Rightarrow> bool" where
  "ordered_state s =
     (keyed_by resource_name (resources s) \<and> sorted (map fst (resources s)) \<and>
      keyed_by entity_id (entities s) \<and> sorted (map fst (entities s)) \<and>
      list_all (\<lambda>(k, e). distinct (map fst (experience e)) \<and> sorted (map fst (experience e)))
        (entities s) \<and>
      distinct (technologies s) \<and> sorted (technologies s))"

text \<open>The states that a save followed by a load gives back: ordered, with integers that fit.\<close>

definition persistable :: "GameState \<Rightarrow> bool" where
  "persistable s =
     (ordered_state s \<and> sqlite_integer (tick s) \<and> sqlite_integer (prestige_tokens s))"

text \<open>
  What every state of a run has: it is ordered, its tick counter is not negative, it has
  no prestige tokens, and every entity has an experience of gathering.
\<close>

definition run_invariant :: "GameState \<Rightarrow> bool" where
  "run_invariant s =
     (ordered_state s \<and> 0 \<le> tick s \<and> prestige_tokens s = 0 \<and>
      list_all (\<lambda>(k, e). dict_contains (experience e) ''gathering'') (entities s))"

text \<open>
  The states a run can reach: a new game, and from there the state that any tick leaves
  (returning or raising), any player boost, and any state loaded back from a save.
\<close>

inductive reachable :: "GameState \<Rightarrow> bool" where
  new_game: "reachable (initialize_base_game new_GameState p0 p1 p2)"
| after_tick: "reachable (state gl) \<Longrightarrow> reachable (state_after (GameLogic_tick gl g))"
| after_boost: "reachable s \<Longrightarrow> reachable (snd (apply_player_boost s eid m))"
| after_load: "reachable s \<Longrightarrow> save_game_state db s = Inr db' \<Longrightarrow> load_game_state db' 1 = Some s' \<Longrightarrow>
     reachable s'"

text \<open>The rows that \<^verbatim>\<open>save_game_state\<close> writes for the experience of one entity.\<close>

definition experience_rows :: "int \<Rightarrow> Entity \<Rightarrow> entity_experience_row list" where
  "experience_rows game_id e =
     map (\<lambda>(task_type, x). (game_id, entity_id e, task_type, x)) (experience e)"

text \<open>The tables after a successful \<^verbatim>\<open>save_game_state\<close>.\<close>

definition saved_database :: "GameDatabase \<Rightarrow> GameState \<Rightarrow> GameDatabase" where
  "saved_database db s =
     \<lparr>game_state_tbl = filter (\<lambda>(i, _). i \<noteq> 1) (game_state_tbl db)
                         @ [(1, tick s, prestige_tokens s, player_boost s)],
      resources_tbl = filter (\<lambda>(g, _). g \<noteq> 1) (resources_tbl db)
                        @ map (\<lambda>r. (1, resource_name r, amount r, production_rate r))
                              (map snd (resources s)),
      entities_tbl = filter (\<lambda>(g, _). g \<noteq> 1) (entities_tbl db)
                       @ map (entity_row 1) (map snd (entities s)),
      entity_experience_tbl = filter (\<lambda>(g, _). g \<noteq> 1) (entity_experience_tbl db)
                       @ concat (map (experience_rows 1) (map snd (entities s))),
      technologies_tbl = filter (\<lambda>(g, _). g \<noteq> 1) (technologies_tbl db)
                       @ map (\<lambda>tech. (1, tech, tick s)) (technologies s)\<rparr>"

section \<open>Concrete inputs\<close>

definition empty_database :: GameDatabase where
  "empty_database =
     \<lparr>game_state_tbl = [], resources_tbl = [], entities_tbl = [],
      entity_experience_tbl = [], technologies_tbl = []\<rparr>"

definition unit_traits :: EntityTraits where
  "unit_traits = \<lparr>efficiency = 1, learning_rate = 1 / 10, cooperation = 1, stamina = 1\<rparr>"

definition scenario_state :: GameState where
  "scenario_state =
     initialize_base_game new_GameState
       (unit_traits, ''Zara'') (unit_traits, ''Kael'') (unit_traits, ''Luna'')"

definition scenario_logic :: GameLogic where
  "scenario_logic =
     \<lparr>database = empty_database, state = scenario_state, auto_save_interval = 10\<rparr>"

definition no_discovery :: rng where
  "no_discovery = (\<lambda>n. 1 / 2)"

definition always_discovery :: rng where
  "always_discovery = (\<lambda>n. 0)"

text \<open>The scenario one tick before the tenth, and four ticks into the game.\<close>

definition due_logic :: GameLogic where
  "due_logic = scenario_logic\<lparr>state := scenario_state\<lparr>tick := 9\<rparr>\<rparr>"

definition early_logic :: GameLogic where
  "early_logic = scenario_logic\<lparr>state := scenario_state\<lparr>tick := 4\<rparr>\<rparr>"

text \<open>A philosopher sent gathering, and a second resource with a stored rate.\<close>

definition philosopher_logic :: GameLogic where
  "philosopher_logic =
     \<lparr>database = empty_database,
      state =
        \<lparr>tick = 0,
         resources =
           [(''energy'', \<lparr>resource_name = ''energy'', amount = 10, production_rate = 0\<rparr>),
            (''knowledge'', \<lparr>resource_name = ''knowledge'', amount = 0, production_rate = 5\<rparr>)],
         entities = [(''entity_0'', generate_entity ''entity_0'' ''philosopher'' unit_traits ''Sage'')],
         technologies = [], prestige_tokens = 0, player_boost = 1\<rparr>,
      auto_save_interval = 10\<rparr>"

text \<open>One gatherer and no \<^verbatim>\<open>energy\<close> resource.\<close>

definition no_energy_state :: GameState where
  "no_energy_state =
     \<lparr>tick = 0, resources = [],
      entities = [(''entity_0'', generate_entity ''entity_0'' ''gatherer'' unit_traits ''Zara'')],
      technologies = [], prestige_tokens = 0, player_boost = 1\<rparr>"

definition no_energy_logic :: GameLogic where
  "no_energy_logic =
     \<lparr>database = empty_database, state = no_energy_state, auto_save_interval = 10\<rparr>"

definition idle_display :: NCursesDisplay where
  "idle_display = \<lparr>input_queue = [], current_selection = 0, selectable_items = []\<rparr>"

text \<open>A database that already holds another game in slot 1 and a game in slot 2.\<close>

definition used_database :: GameDatabase where
  "used_database =
     \<lparr>game_state_tbl = [(1, 77, 3, 2), (2, 5, 0, 1)],
      resources_tbl = [(1, ''energy'', 500, 9), (1, ''knowledge'', 1, 1), (2, ''energy'', 10, 0)],
      entities_tbl = [(1, ''entity_9'', ''Echo'', ''builder'', None, 1, 1, 1, 1)],
      entity_experience_tbl = [(1, ''entity_9'', ''building'', 4), (2, ''entity_0'', ''gathering'', 1)],
      technologies_tbl = [(1, ''fire'', 70)]\<rparr>"

text \<open>The scenario one tick before the tenth, with one technology listed twice.\<close>

definition twice_logic :: GameLogic where
  "twice_logic =
     scenario_logic\<lparr>state := scenario_state\<lparr>tick := 9, technologies := [''fire'', ''fire'']\<rparr>\<rparr>"

text \<open>
  The scenario after \<open>n\<close> ticks: every entity has gathered \<open>n\<close> times, and the amount of
  \<^verbatim>\<open>energy\<close> is the sum of the yields and of the rates applied so far.
\<close>

definition long_run_entity :: "string \<Rightarrow> string \<Rightarrow> nat \<Rightarrow> Entity" where
  "long_run_entity eid nm n =
     \<lparr>entity_id = eid, entity_name = nm, entity_type = ''gatherer'', traits = unit_traits,
      experience = [(''gathering'', real n / 10)], current_task = Some ''gathering''\<rparr>"

definition long_run_state :: "nat \<Rightarrow> GameState" where
  "long_run_state n =
     \<lparr>tick = int n,
      resources =
        [(''energy'',
          \<lparr>resource_name = ''energy'',
           amount = 10 + 6 * real n + 3 * (real n)\<^sup>2 / 100,
           production_rate = (if n = 0 then 0 else 3 + 3 * real n / 100)\<rparr>)],
      entities =
        [(''entity_0'', long_run_entity ''entity_0'' ''Zara'' n),
         (''entity_1'', long_run_entity ''entity_1'' ''Kael'' n),
         (''entity_2'', long_run_entity ''entity_2'' ''Luna'' n)],
      technologies = [], prestige_tokens = 0, player_boost = 1\<rparr>"

section \<open>Properties\<close>

lemma map_of_dict_modify:
  "map_of (dict_modify k f d) k' = (if k' = k then map_option f (map_of d k) else map_of d k')"
  by (induction d) auto

lemma dict_contains_modify [simp]: "dict_contains (dict_modify k f d) k' = dict_contains d k'"
  by (simp add: dict_contains_def map_of_dict_modify)

lemma dict_modify_modify: "dict_modify k f (dict_modify k h d) = dict_modify k (f \<circ> h) d"
  by (induction d) auto

lemma dict_modify_id: "(\<And>v. f v = v) \<Longrightarrow> dict_modify k f d = d"
  by (induction d) auto

lemma add_amount_add: "add_amount k x (add_amount k y rs) = add_amount k (y + x) rs"
  by (simp add: add_amount_def dict_modify_modify comp_def add.assoc)

lemma add_amount_0 [simp]: "add_amount k 0 rs = rs"
  by (simp add: add_amount_def dict_modify_id)

lemma dict_contains_add_amount [simp]: "dict_contains (add_amount k x rs) k' = dict_contains rs k'"
  by (simp add: add_amount_def)

lemma process_entity_action_eq:
  "process_entity_action rs e g =
     (if gathering e
      then (if g 0 < 5 / 100 then Some (discovery_event (gain_experience e)) else None,
            if dict_contains rs ''energy'' then add_amount ''energy'' (gathering_yield e) rs else rs,
            gain_experience e, \<lambda>n. g (Suc n))
      else (None, rs, e, g))"
  by (simp add: process_entity_action_def gathering_def gain_experience_def gathering_yield_def
      add_amount_def random_random_def Let_def)

lemma process_entities_eq:
  "process_entities rs es g =
     (discoveries (map snd es) g,
      if dict_contains rs ''energy'' then add_amount ''energy'' (total_yield (map snd es)) rs else rs,
      map (\<lambda>(k, e). (k, gain_experience e)) es,
      \<lambda>n. g (n + length (filter gathering (map snd es))))"
proof (induction es arbitrary: rs g)
  case Nil
  then show ?case by (simp add: total_yield_def)
next
  case (Cons p es)
  obtain k e where p: "p = (k, e)" by (cases p)
  show ?case
    by (simp add: p process_entity_action_eq Cons.IH total_yield_def add_amount_add gain_experience_def)
qed

lemma amounts_le_refl: "amounts_le rs rs"
  by (simp add: amounts_le_def list_all2_same split_def)

lemma amounts_le_trans: "amounts_le a b \<Longrightarrow> amounts_le b c \<Longrightarrow> amounts_le a c"
  unfolding amounts_le_def
  by (rule list_all2_trans[where ?P1.0 = "\<lambda>(k, r) (k', r'). k = k' \<and> amount r \<le> amount r'"
        and ?P2.0 = "\<lambda>(k, r) (k', r'). k = k' \<and> amount r \<le> amount r'"]) auto

lemma amounts_le_modify:
  "(\<And>r. amount r \<le> amount (f r)) \<Longrightarrow> amounts_le rs (dict_modify k f rs)"
  unfolding amounts_le_def
  by (induction rs) (auto simp: list_all2_same split_def)

lemma amounts_le_apply_production: "amounts_le rs (apply_production rs)"
  unfolding amounts_le_def apply_production_def
  by (induction rs) auto

lemma map_of_nonneg:
  "list_all (\<lambda>(t, x). (0::real) \<le> x) d \<Longrightarrow> 0 \<le> dict_get d k 0"
  by (induction d) (auto simp: dict_get_def)

lemma gathering_yield_nonneg: "nonneg_entity e \<Longrightarrow> 0 \<le> gathering_yield e"
  by (simp add: nonneg_entity_def gathering_yield_def map_of_nonneg)

lemma total_yield_nonneg: "list_all nonneg_entity es \<Longrightarrow> 0 \<le> total_yield es"
  unfolding total_yield_def
  by (induction es) (auto simp: gathering_yield_nonneg)

lemma map_of_dict_set: "map_of (dict_set k v d) = (map_of d)(k \<mapsto> v)"
  by (induction d) auto

lemma map_of_fst_mem: "t \<in> fst ` set d \<Longrightarrow> \<exists>x. map_of d t = Some x"
  by (induction d) auto

lemma experience_le_gain:
  assumes "0 \<le> learning_rate (traits e)"
  shows "experience_le e (gain_experience e)"
proof -
  have "\<And>t. t \<in> fst ` set (experience e) \<Longrightarrow>
     (case map_of (experience e) t of None \<Rightarrow> True
      | Some x \<Rightarrow> (case map_of (experience (gain_experience e)) t of None \<Rightarrow> False | Some y \<Rightarrow> x \<le> y))"
    using assms
    by (auto simp: gain_experience_def map_of_dict_set dict_get_def split: option.splits)
  then show ?thesis
    by (simp add: experience_le_def list_all_iff)
qed

lemma experiences_le_gain:
  "list_all (\<lambda>(k, e). nonneg_entity e) es \<Longrightarrow>
   experiences_le es (map (\<lambda>(k, e). (k, gain_experience e)) es)"
  unfolding experiences_le_def
  by (induction es) (auto simp: experience_le_gain nonneg_entity_def)

lemma tick_simulate_eq:
  "tick_simulate s g =
     (discoveries (map snd (entities s)) g,
      update_production_rates
        (s\<lparr>tick := tick s + 1,
           resources := (if dict_contains (resources s) ''energy''
                         then add_amount ''energy'' (total_yield (map snd (entities s))) (resources s)
                         else resources s),
           entities := map (\<lambda>(k, e). (k, gain_experience e)) (entities s)\<rparr>)
        \<lparr>resources := apply_production (resources (update_production_rates
        (s\<lparr>tick := tick s + 1,
           resources := (if dict_contains (resources s) ''energy''
                         then add_amount ''energy'' (total_yield (map snd (entities s))) (resources s)
                         else resources s),
           entities := map (\<lambda>(k, e). (k, gain_experience e)) (entities s)\<rparr>)))\<rparr>,
      \<lambda>n. g (n + length (filter gathering (map snd (entities s)))))"
  by (simp add: tick_simulate_def process_entities_eq Let_def)

lemma tick_simulate_tick: "tick (fst (snd (tick_simulate s g))) = tick s + 1"
  by (simp add: tick_simulate_eq update_production_rates_def)

lemma tick_simulate_entities:
  "entities (fst (snd (tick_simulate s g))) = map (\<lambda>(k, e). (k, gain_experience e)) (entities s)"
  by (simp add: tick_simulate_eq update_production_rates_def)

lemma tick_simulate_amounts:
  assumes "list_all (\<lambda>(k, e). nonneg_entity e) (entities s)"
  shows "amounts_le (resources s) (resources (fst (snd (tick_simulate s g))))"
proof -
  let ?y = "total_yield (map snd (entities s))"
  have y: "0 \<le> ?y"
    using assms by (intro total_yield_nonneg) (auto simp: list_all_iff)
  let ?rs1 = "if dict_contains (resources s) ''energy''
              then add_amount ''energy'' ?y (resources s) else resources s"
  have 1: "amounts_le (resources s) ?rs1"
    using y by (auto simp: add_amount_def amounts_le_refl intro!: amounts_le_modify)
  have 2: "amounts_le ?rs1 (resources (update_production_rates (s\<lparr>tick := tick s + 1, resources := ?rs1,
      entities := map (\<lambda>(k, e). (k, gain_experience e)) (entities s)\<rparr>)))"
    by (auto simp: update_production_rates_def amounts_le_refl intro!: amounts_le_modify)
  show ?thesis
    unfolding tick_simulate_eq
    using amounts_le_trans[OF amounts_le_trans[OF 1 2] amounts_le_apply_production]
    by simp
qed

lemma GameLogic_tick_Inr:
  assumes "GameLogic_tick gl g = Inr (d, gl', g')"
  shows "state gl' = fst (snd (tick_simulate (state gl) g))"
    and "g' = snd (snd (tick_simulate (state gl) g))"
    and "auto_save_interval gl' = auto_save_interval gl"
    and "auto_save_interval gl \<noteq> 0"
    and "td_events d = fst (tick_simulate (state gl) g) @
           (if tick (state gl') mod auto_save_interval gl = 0 then [system_event] else [])"
    and "if tick (state gl') mod auto_save_interval gl = 0
         then save_game_state (database gl) (state gl') = Inr (database gl')
         else database gl' = database gl"
  using assms
  by (auto simp: GameLogic_tick_def save_game_def tick_data_def
      split: prod.splits if_splits sum.splits)

lemma GameLogic_tick_cases:
  "GameLogic_tick gl g =
     (if auto_save_interval gl = 0
      then Inl (ZeroDivisionError, fst (snd (tick_simulate (state gl) g)))
      else if (tick (state gl) + 1) mod auto_save_interval gl = 0 then
        (case save_game_state (database gl) (fst (snd (tick_simulate (state gl) g))) of
           Inl err \<Rightarrow> Inl (err, fst (snd (tick_simulate (state gl) g)))
         | Inr db' \<Rightarrow>
             Inr (tick_data (fst (snd (tick_simulate (state gl) g)))
                    (fst (tick_simulate (state gl) g) @ [system_event]),
                  gl\<lparr>state := fst (snd (tick_simulate (state gl) g)), database := db'\<rparr>,
                  snd (snd (tick_simulate (state gl) g))))
      else Inr (tick_data (fst (snd (tick_simulate (state gl) g))) (fst (tick_simulate (state gl) g)),
                gl\<lparr>state := fst (snd (tick_simulate (state gl) g))\<rparr>,
                snd (snd (tick_simulate (state gl) g))))"
proof -
  obtain ev s' g' where ts: "tick_simulate (state gl) g = (ev, s', g')"
    by (cases "tick_simulate (state gl) g")
  have "tick s' = tick (state gl) + 1"
    using tick_simulate_tick[of "state gl" g] by (simp add: ts)
  then show ?thesis
    by (simp add: GameLogic_tick_def ts save_game_def split: sum.splits)
qed

lemma state_after_tick:
  "state_after (GameLogic_tick gl g) = fst (snd (tick_simulate (state gl) g))"
  by (simp add: GameLogic_tick_cases state_after_def split: sum.splits)

text \<open>
  C2. For every state, a call of \<^verbatim>\<open>tick\<close> leaves the tick counter increased by exactly
  1, whether it returns or raises. When every entity's efficiency, learning rate and stored
  experience and every stored amount are non-negative, it leaves no resource with a smaller
  amount and no entity with a smaller experience of any task (the keys of both dicts are
  unchanged).
\<close>

theorem tick_monotone:
  "tick (state_after (GameLogic_tick gl g)) = tick (state gl) + 1 \<and>
   (nonneg_state (state gl) \<longrightarrow>
      amounts_le (resources (state gl)) (resources (state_after (GameLogic_tick gl g))) \<and>
      experiences_le (entities (state gl)) (entities (state_after (GameLogic_tick gl g))))"
  by (simp add: state_after_tick tick_simulate_tick tick_simulate_entities tick_simulate_amounts
      experiences_le_gain nonneg_state_def)

lemma GameLogic_tick_returns:
  assumes "auto_save_interval gl \<noteq> 0"
    and "(tick (state gl) + 1) mod auto_save_interval gl \<noteq> 0"
  shows "GameLogic_tick gl g =
           Inr (tick_data (fst (snd (tick_simulate (state gl) g))) (fst (tick_simulate (state gl) g)),
                gl\<lparr>state := fst (snd (tick_simulate (state gl) g))\<rparr>,
                snd (snd (tick_simulate (state gl) g)))"
proof -
  obtain ev s' g' where ts: "tick_simulate (state gl) g = (ev, s', g')"
    by (cases "tick_simulate (state gl) g")
  have "tick s' = tick (state gl) + 1"
    using tick_simulate_tick[of "state gl" g] by (simp add: ts)
  then show ?thesis
    using assms by (simp add: GameLogic_tick_def ts)
qed

lemma energy_rate_eq:
  "energy_rate es =
     sum_list (map gathering_yield
                 (filter (\<lambda>e. entity_type e = ''gatherer'' \<and> gathering e) (map snd es)))"
  by (simp add: energy_rate_def gathering_yield_def[abs_def] gathering_def)

lemma scenario_state_eq:
  "scenario_state =
     \<lparr>tick = 0,
      resources = [(''energy'', \<lparr>resource_name = ''energy'', amount = 10, production_rate = 0\<rparr>)],
      entities = [(''entity_0'', generate_entity ''entity_0'' ''gatherer'' unit_traits ''Zara''),
                  (''entity_1'', generate_entity ''entity_1'' ''gatherer'' unit_traits ''Kael''),
                  (''entity_2'', generate_entity ''entity_2'' ''gatherer'' unit_traits ''Luna'')],
      technologies = [], prestige_tokens = 0, player_boost = 1\<rparr>"
  by (simp add: scenario_state_def initialize_base_game_def new_GameState_def generate_entity_def)

lemma scenario_logic_tick:
  "GameLogic_tick scenario_logic g =
     Inr (tick_data (fst (snd (tick_simulate (state scenario_logic) g)))
            (fst (tick_simulate (state scenario_logic) g)),
          scenario_logic\<lparr>state := fst (snd (tick_simulate (state scenario_logic) g))\<rparr>,
          snd (snd (tick_simulate (state scenario_logic) g)))"
  by (rule GameLogic_tick_returns) (simp_all add: scenario_logic_def scenario_state_eq)

lemma scenario_entity_generate: "scenario_entity (generate_entity i ''gatherer'' unit_traits n)"
  by (simp add: scenario_entity_def generate_entity_def unit_traits_def)

lemma scenario_entity_facts:
  assumes "scenario_entity e"
  shows "gathering e" and "gathering_yield e = 1"
    and "experience (gain_experience e) = [(''gathering'', 1 / 10)]"
    and "gathering_yield (gain_experience e) = 101 / 100"
    and "gathering (gain_experience e)" and "entity_type (gain_experience e) = ''gatherer''"
  using assms
  by (simp_all add: scenario_entity_def gathering_def gathering_yield_def gain_experience_def
      dict_get_def)

text \<open>
  C1, as the code behaves. From a state whose only resource is \<^verbatim>\<open>energy\<close> with amount
  10 and whose entities are three gatherers of the scenario, a tick in which no discovery
  roll succeeds emits no discovery, adds 3 to \<^verbatim>\<open>energy\<close> in the yield step (13), leaves
  every entity with gathering experience 0.1, and then computes the production rate from
  the experience just gained: the rate is 3.03, and the final amount is 16.03.
\<close>

theorem scenario_tick:
  assumes "GameLogic_tick gl g = Inr (d, gl', g')"
    and "resources (state gl) = [(''energy'', r)]" and "amount r = 10"
    and "entities (state gl) = [(k1, e1), (k2, e2), (k3, e3)]"
    and "scenario_entity e1" and "scenario_entity e2" and "scenario_entity e3"
    and "\<not> g 0 < 5 / 100" and "\<not> g 1 < 5 / 100" and "\<not> g 2 < 5 / 100"
  shows "process_entities (resources (state gl)) (entities (state gl)) g =
           ([], [(''energy'', r\<lparr>amount := 13\<rparr>)],
            [(k1, gain_experience e1), (k2, gain_experience e2), (k3, gain_experience e3)],
            \<lambda>n. g (n + 3)) \<and>
         map (\<lambda>(k, e). experience e) (entities (state gl')) =
           [[(''gathering'', 1 / 10)], [(''gathering'', 1 / 10)], [(''gathering'', 1 / 10)]] \<and>
         resources (state gl') =
           [(''energy'', r\<lparr>amount := 1603 / 100, production_rate := 303 / 100\<rparr>)]"
proof -
  note f1 = scenario_entity_facts[OF assms(5)]
  note f2 = scenario_entity_facts[OF assms(6)]
  note f3 = scenario_entity_facts[OF assms(7)]
  have g1: "\<not> g (Suc 0) < 5 / 100" and g2: "\<not> g (Suc (Suc 0)) < 5 / 100"
    using assms(9,10) by (simp_all add: numeral_2_eq_2)
  have pe: "process_entities (resources (state gl)) (entities (state gl)) g =
           ([], [(''energy'', r\<lparr>amount := 13\<rparr>)],
            [(k1, gain_experience e1), (k2, gain_experience e2), (k3, gain_experience e3)],
            \<lambda>n. g (n + 3))"
    using assms(3,8) g1 g2
    by (simp add: process_entities_eq assms(2,4) f1 f2 f3 total_yield_def add_amount_def
        dict_contains_def numeral_3_eq_3)
  have st: "state gl' = fst (snd (tick_simulate (state gl) g))"
    by (rule GameLogic_tick_Inr(1)[OF assms(1)])
  have ts: "fst (snd (tick_simulate (state gl) g)) =
      (state gl)\<lparr>tick := tick (state gl) + 1,
        resources := [(''energy'', r\<lparr>amount := 1603 / 100, production_rate := 303 / 100\<rparr>)],
        entities := [(k1, gain_experience e1), (k2, gain_experience e2), (k3, gain_experience e3)]\<rparr>"
    by (simp add: tick_simulate_def pe update_production_rates_def dict_contains_def
        energy_rate_eq apply_production_def f1 f2 f3)
  show ?thesis
    by (simp add: pe st ts f1 f2 f3)
qed

theorem scenario_tick_witness:
  "(case GameLogic_tick scenario_logic no_discovery of
      Inl err \<Rightarrow> False
    | Inr (d, gl', g') \<Rightarrow>
        map (\<lambda>(k, r). (k, amount r, production_rate r)) (resources (state gl')) =
          [(''energy'', 1603 / 100, 303 / 100)])"
proof -
  note ret = scenario_logic_tick[of no_discovery]
  show ?thesis
    using scenario_tick[OF ret, of _ "''entity_0''" _ "''entity_1''" _ "''entity_2''" _]
    unfolding ret
    by (simp add: scenario_logic_def scenario_state_eq scenario_entity_generate
        no_discovery_def)
qed

text \<open>
  The scenario as C1 states it fails: after the tick the rate is not 3 and the amount is
  not 16.
\<close>

theorem scenario_sixteen_counterexample:
  "(case GameLogic_tick scenario_logic no_discovery of
      Inl err \<Rightarrow> []
    | Inr (d, gl', g') \<Rightarrow>
        map (\<lambda>(k, r). (k, amount r, production_rate r)) (resources (state gl')))
   \<noteq> [(''energy'', 16, 3)]"
proof -
  note ret = scenario_logic_tick[of no_discovery]
  show ?thesis
    unfolding ret
    by (simp add: scenario_logic_def scenario_state_eq tick_simulate_def
        process_entity_action_def random_random_def dict_get_def dict_contains_def
        update_production_rates_def apply_production_def energy_rate_def generate_entity_def
        unit_traits_def no_discovery_def)
qed

theorem tick_monotone_witness:
  "nonneg_state (state scenario_logic) \<and>
   tick (state_after (GameLogic_tick scenario_logic no_discovery)) = 1 \<and>
   amounts_le (resources (state scenario_logic))
     (resources (state_after (GameLogic_tick scenario_logic no_discovery))) \<and>
   experiences_le (entities (state scenario_logic))
     (entities (state_after (GameLogic_tick scenario_logic no_discovery)))"
proof -
  have nn: "nonneg_state (state scenario_logic)"
    by (simp add: scenario_logic_def scenario_state_eq nonneg_state_def nonneg_entity_def
        generate_entity_def unit_traits_def)
  have t0: "tick (state scenario_logic) = 0"
    by (simp add: scenario_logic_def scenario_state_eq)
  show ?thesis
    using tick_monotone[of scenario_logic no_discovery] nn t0
    by simp
qed

lemma discovery_not_system: "discovery_event e \<noteq> system_event"
  by (simp add: discovery_event_def system_event_def)

lemma system_event_notin_discoveries: "system_event \<notin> set (discoveries es g)"
  by (induction es arbitrary: g) (auto simp: discovery_not_system[symmetric])

lemma tick_simulate_events: "fst (tick_simulate s g) = discoveries (map snd (entities s)) g"
  by (simp add: tick_simulate_eq)

lemma tick_simulate_rng: "snd (snd (tick_simulate s g)) = (\<lambda>n. g (n + draws s))"
  by (simp add: tick_simulate_eq draws_def)

lemma GameLogic_tick_returns_due:
  assumes "auto_save_interval gl \<noteq> 0"
    and "(tick (state gl) + 1) mod auto_save_interval gl = 0"
    and "save_game_state (database gl) (fst (snd (tick_simulate (state gl) g))) = Inr db'"
  shows "GameLogic_tick gl g =
           Inr (tick_data (fst (snd (tick_simulate (state gl) g)))
                  (fst (tick_simulate (state gl) g) @ [system_event]),
                gl\<lparr>state := fst (snd (tick_simulate (state gl) g)), database := db'\<rparr>,
                snd (snd (tick_simulate (state gl) g)))"
proof -
  obtain ev s' g' where ts: "tick_simulate (state gl) g = (ev, s', g')"
    by (cases "tick_simulate (state gl) g")
  have "tick s' = tick (state gl) + 1"
    using tick_simulate_tick[of "state gl" g] by (simp add: ts)
  then show ?thesis
    using assms by (simp add: GameLogic_tick_def ts save_game_def)
qed

lemma due_logic_state:
  "fst (snd (tick_simulate (state due_logic) no_discovery)) =
     \<lparr>tick = 10,
      resources = [(''energy'', \<lparr>resource_name = ''energy'', amount = 1603 / 100,
                                 production_rate = 303 / 100\<rparr>)],
      entities =
        [(''entity_0'', gain_experience (generate_entity ''entity_0'' ''gatherer'' unit_traits ''Zara'')),
         (''entity_1'', gain_experience (generate_entity ''entity_1'' ''gatherer'' unit_traits ''Kael'')),
         (''entity_2'', gain_experience (generate_entity ''entity_2'' ''gatherer'' unit_traits ''Luna''))],
      technologies = [], prestige_tokens = 0, player_boost = 1\<rparr>"
  by (simp add: tick_simulate_eq due_logic_def scenario_logic_def scenario_state_eq
      update_production_rates_def dict_contains_def add_amount_def total_yield_def
      energy_rate_eq apply_production_def
      scenario_entity_facts[OF scenario_entity_generate])

lemma due_logic_save:
  "save_game_state (database due_logic) (fst (snd (tick_simulate (state due_logic) no_discovery))) =
     Inr \<lparr>game_state_tbl = [(1, 10, 0, 1)],
          resources_tbl = [(1, ''energy'', 1603 / 100, 303 / 100)],
          entities_tbl =
            [(1, ''entity_0'', ''Zara'', ''gatherer'', Some ''gathering'', 1, 1 / 10, 1, 1),
             (1, ''entity_1'', ''Kael'', ''gatherer'', Some ''gathering'', 1, 1 / 10, 1, 1),
             (1, ''entity_2'', ''Luna'', ''gatherer'', Some ''gathering'', 1, 1 / 10, 1, 1)],
          entity_experience_tbl =
            [(1, ''entity_0'', ''gathering'', 1 / 10), (1, ''entity_1'', ''gathering'', 1 / 10),
             (1, ''entity_2'', ''gathering'', 1 / 10)],
          technologies_tbl = []\<rparr>"
  unfolding due_logic_state
  by (simp add: due_logic_def scenario_logic_def empty_database_def save_game_state_def
      sqlite_integer_def
      insert_row_def resources_pk_def entities_pk_def entity_experience_pk_def entity_row_def
      gain_experience_def gathering_def generate_entity_def unit_traits_def dict_get_def)

lemma twice_logic_state:
  "fst (snd (tick_simulate (state twice_logic) no_discovery)) =
     \<lparr>tick = 10,
      resources = [(''energy'', \<lparr>resource_name = ''energy'', amount = 1603 / 100,
                                 production_rate = 303 / 100\<rparr>)],
      entities =
        [(''entity_0'', gain_experience (generate_entity ''entity_0'' ''gatherer'' unit_traits ''Zara'')),
         (''entity_1'', gain_experience (generate_entity ''entity_1'' ''gatherer'' unit_traits ''Kael'')),
         (''entity_2'', gain_experience (generate_entity ''entity_2'' ''gatherer'' unit_traits ''Luna''))],
      technologies = [''fire'', ''fire''], prestige_tokens = 0, player_boost = 1\<rparr>"
  by (simp add: tick_simulate_eq twice_logic_def scenario_logic_def scenario_state_eq
      update_production_rates_def dict_contains_def add_amount_def total_yield_def
      energy_rate_eq apply_production_def
      scenario_entity_facts[OF scenario_entity_generate])

lemma twice_logic_save:
  "save_game_state (database twice_logic) (fst (snd (tick_simulate (state twice_logic) no_discovery))) =
     Inl IntegrityError"
  unfolding twice_logic_state
  by (simp add: twice_logic_def scenario_logic_def empty_database_def save_game_state_def
      sqlite_integer_def technologies_pk_def
      insert_row_def resources_pk_def entities_pk_def entity_experience_pk_def entity_row_def
      gain_experience_def gathering_def generate_entity_def unit_traits_def dict_get_def)

lemma twice_logic_tick:
  "GameLogic_tick twice_logic no_discovery =
     Inl (IntegrityError, fst (snd (tick_simulate (state twice_logic) no_discovery)))"
  by (simp add: GameLogic_tick_cases twice_logic_save)
    (simp add: twice_logic_def scenario_logic_def)

lemma due_logic_tick:
  "GameLogic_tick due_logic no_discovery =
      Inr (tick_data (fst (snd (tick_simulate (state due_logic) no_discovery)))
             (fst (tick_simulate (state due_logic) no_discovery) @ [system_event]),
           due_logic\<lparr>state := fst (snd (tick_simulate (state due_logic) no_discovery)),
             database := \<lparr>game_state_tbl = [(1, 10, 0, 1)],
          resources_tbl = [(1, ''energy'', 1603 / 100, 303 / 100)],
          entities_tbl =
            [(1, ''entity_0'', ''Zara'', ''gatherer'', Some ''gathering'', 1, 1 / 10, 1, 1),
             (1, ''entity_1'', ''Kael'', ''gatherer'', Some ''gathering'', 1, 1 / 10, 1, 1),
             (1, ''entity_2'', ''Luna'', ''gatherer'', Some ''gathering'', 1, 1 / 10, 1, 1)],
          entity_experience_tbl =
            [(1, ''entity_0'', ''gathering'', 1 / 10), (1, ''entity_1'', ''gathering'', 1 / 10),
             (1, ''entity_2'', ''gathering'', 1 / 10)],
          technologies_tbl = []\<rparr>\<rparr>,
           snd (snd (tick_simulate (state due_logic) no_discovery)))"
  by (rule GameLogic_tick_returns_due[OF _ _ due_logic_save])
    (simp_all add: due_logic_def scenario_logic_def)

text \<open>
  C10 fails on the code: at the tenth tick of a state whose save is refused (a technology
  listed twice), the incremented tick is a multiple of the interval, yet the call raises
  from its save and emits no event.
\<close>

theorem auto_save_raises_counterexample:
  "(case GameLogic_tick twice_logic no_discovery of
      Inl (err, s) \<Rightarrow> err = IntegrityError \<and> tick s mod auto_save_interval twice_logic = 0
    | Inr res \<Rightarrow> False)"
  unfolding twice_logic_tick
  by (simp add: twice_logic_state) (simp add: twice_logic_def scenario_logic_def)

text \<open>
  C10, as the code behaves. For a positive interval, when the tick counter after its
  increment is a multiple of the interval the tick first saves: if the save succeeds the
  call returns and its events contain the auto-save system event, and if the save raises
  the call raises that error, with the state already advanced, and emits nothing. At every
  other tick the call returns without the event. So a returning tick carries the event if
  and only if the incremented tick is a multiple of the interval, and a tick returns if and
  only if no save is due or the due save succeeds.
\<close>

theorem auto_save_event_iff:
  assumes "0 < auto_save_interval gl"
  shows "(case GameLogic_tick gl g of
            Inr (d, gl', g') \<Rightarrow>
              tick (state gl') = tick (state gl) + 1 \<and>
              (system_event \<in> set (td_events d) \<longleftrightarrow>
                 tick (state gl') mod auto_save_interval gl = 0)
          | Inl (err, s) \<Rightarrow>
              tick s = tick (state gl) + 1 \<and> tick s mod auto_save_interval gl = 0 \<and>
              save_game_state (database gl) s = Inl err) \<and>
         ((\<exists>res. GameLogic_tick gl g = Inr res) \<longleftrightarrow>
            ((tick (state gl) + 1) mod auto_save_interval gl = 0 \<longrightarrow>
               (\<exists>db'. save_game_state (database gl) (state_after (GameLogic_tick gl g)) = Inr db')))"
proof -
  let ?s = "fst (snd (tick_simulate (state gl) g))"
  have t: "tick ?s = tick (state gl) + 1"
    by (rule tick_simulate_tick)
  have n: "auto_save_interval gl \<noteq> 0"
    using assms by simp
  show ?thesis
  proof (cases "(tick (state gl) + 1) mod auto_save_interval gl = 0")
    case True
    show ?thesis
    proof (cases "save_game_state (database gl) ?s")
      case (Inl err)
      then show ?thesis
        using True n t by (simp add: GameLogic_tick_cases state_after_def)
    next
      case (Inr db')
      then show ?thesis
        using True n t by (simp add: GameLogic_tick_cases state_after_def tick_data_def)
    qed
  next
    case False
    then show ?thesis
      using n t
      by (simp add: GameLogic_tick_cases tick_data_def tick_simulate_events
          system_event_notin_discoveries)
  qed
qed

theorem auto_save_event_iff_witness:
  "(case GameLogic_tick due_logic no_discovery of
      Inl err \<Rightarrow> False
    | Inr (d, gl', g') \<Rightarrow> tick (state gl') = 10 \<and> system_event \<in> set (td_events d)) \<and>
   (case GameLogic_tick early_logic no_discovery of
      Inl err \<Rightarrow> False
    | Inr (d, gl', g') \<Rightarrow> tick (state gl') = 5 \<and> system_event \<notin> set (td_events d))"
proof -
  note due = due_logic_tick
  have early: "GameLogic_tick early_logic no_discovery =
      Inr (tick_data (fst (snd (tick_simulate (state early_logic) no_discovery)))
             (fst (tick_simulate (state early_logic) no_discovery)),
           early_logic\<lparr>state := fst (snd (tick_simulate (state early_logic) no_discovery))\<rparr>,
           snd (snd (tick_simulate (state early_logic) no_discovery)))"
    by (rule GameLogic_tick_returns) (simp_all add: early_logic_def scenario_logic_def)
  have 1: "0 < auto_save_interval due_logic" and 2: "0 < auto_save_interval early_logic"
    by (simp_all add: due_logic_def early_logic_def scenario_logic_def)
  have a: "tick (state due_logic) = 9" "auto_save_interval due_logic = 10"
    and b: "tick (state early_logic) = 4" "auto_save_interval early_logic = 10"
    by (simp_all add: due_logic_def early_logic_def scenario_logic_def)
  show ?thesis
    using auto_save_event_iff[OF 1, of no_discovery] auto_save_event_iff[OF 2, of no_discovery]
    unfolding due early
    by (simp add: a b)
qed

text \<open>
  C7 fails on the code: at the tenth tick the tick step itself writes the state to the
  database.
\<close>

theorem tick_writes_database_counterexample:
  "(case GameLogic_tick due_logic no_discovery of
      Inl err \<Rightarrow> False
    | Inr (d, gl', g') \<Rightarrow>
        database gl' \<noteq> database due_logic \<and> game_state_tbl (database gl') = [(1, 10, 0, 1)])"
proof -
  note due = due_logic_tick
  show ?thesis
    unfolding due
    by (simp add: due_logic_def scenario_logic_def empty_database_def)
qed

text \<open>
  C7, as the code behaves. The tick step saves by itself: when the tick counter after the
  increment is a multiple of the interval, the database after the tick is the result of
  \<^verbatim>\<open>save_game_state\<close> on the new state (and the system event is emitted after the save);
  at every other tick the database is left as it was.
\<close>

theorem tick_saves_when_due:
  assumes "GameLogic_tick gl g = Inr (d, gl', g')"
  shows "(if (tick (state gl) + 1) mod auto_save_interval gl = 0
          then save_game_state (database gl) (state gl') = Inr (database gl') \<and>
               system_event \<in> set (td_events d)
          else database gl' = database gl \<and> system_event \<notin> set (td_events d))"
  using GameLogic_tick_Inr(1,5,6)[OF assms]
  by (auto simp: tick_simulate_tick tick_simulate_events system_event_notin_discoveries
      split: if_splits)

theorem tick_saves_when_due_witness:
  "(case GameLogic_tick due_logic no_discovery of
      Inl err \<Rightarrow> False
    | Inr (d, gl', g') \<Rightarrow>
        save_game_state (database due_logic) (state gl') = Inr (database gl'))"
proof -
  note due = due_logic_tick
  show ?thesis
    using tick_saves_when_due[OF due]
    unfolding due
    by (simp add: due_logic_def scenario_logic_def)
qed

lemma map_of_apply_production:
  "map_of (apply_production rs) k =
     map_option (\<lambda>r. if production_rate r > 0 then r\<lparr>amount := amount r + production_rate r\<rparr> else r)
       (map_of rs k)"
  unfolding apply_production_def
  by (induction rs) auto

lemma tick_simulate_resources:
  "resources (fst (snd (tick_simulate s g))) =
     apply_production
       (if dict_contains (resources s) ''energy''
        then dict_modify ''energy''
               (\<lambda>r. r\<lparr>production_rate :=
                         energy_rate (map (\<lambda>(k, e). (k, gain_experience e)) (entities s))\<rparr>)
               (add_amount ''energy'' (total_yield (map snd (entities s))) (resources s))
        else resources s)"
  by (simp add: tick_simulate_eq update_production_rates_def)

lemma gathering_gain: "gathering (gain_experience e) = gathering e"
  by (simp add: gain_experience_def gathering_def)

lemma entity_type_gain: "entity_type (gain_experience e) = entity_type e"
  by (simp add: gain_experience_def)

lemma claimed_rate_energy:
  "claimed_production_rate es ''energy'' =
     sum_list (map gathering_yield (filter gathering (map snd es)))"
proof -
  have "\<And>e. (case current_task e of None \<Rightarrow> False | Some t \<Rightarrow> task_feeds t ''energy'') = gathering e"
    by (simp add: task_feeds_def gathering_def split: option.splits)
  moreover have "\<And>e. gathering e \<Longrightarrow>
      (case current_task e of None \<Rightarrow> 0
       | Some t \<Rightarrow> efficiency (traits e) * (1 + dict_get (experience e) t 0 * (1 / 10))) =
      gathering_yield e"
    by (simp add: gathering_def gathering_yield_def)
  ultimately show ?thesis
    unfolding claimed_production_rate_def
    by (auto intro!: arg_cong[where f = sum_list] map_cong)
qed

lemma gatherers_only:
  "list_all (\<lambda>(k, e). gathering e \<longrightarrow> entity_type e = ''gatherer'') es \<Longrightarrow>
   filter (\<lambda>e. entity_type e = ''gatherer'' \<and> gathering e)
     (map snd (map (\<lambda>(k, e). (k, gain_experience e)) es)) =
   filter gathering (map snd (map (\<lambda>(k, e). (k, gain_experience e)) es))"
  by (induction es) (auto simp: gathering_gain entity_type_gain)

text \<open>
  C4 fails on the code: an entity that gathers without being of type \<^verbatim>\<open>gatherer\<close> is
  left out of the rate of \<^verbatim>\<open>energy\<close>, and the rate of any other resource is not
  recomputed at all.
\<close>

theorem production_rate_counterexample:
  "(case GameLogic_tick philosopher_logic no_discovery of
      Inl err \<Rightarrow> []
    | Inr (d, gl', g') \<Rightarrow>
        map (\<lambda>(k, r). (k, production_rate r, claimed_production_rate (entities (state gl')) k))
          (resources (state gl')))
   = [(''energy'', 0, 101 / 100), (''knowledge'', 5, 0)]"
proof -
  have ret: "GameLogic_tick philosopher_logic no_discovery =
     Inr (tick_data (fst (snd (tick_simulate (state philosopher_logic) no_discovery)))
            (fst (tick_simulate (state philosopher_logic) no_discovery)),
          philosopher_logic\<lparr>state := fst (snd (tick_simulate (state philosopher_logic) no_discovery))\<rparr>,
          snd (snd (tick_simulate (state philosopher_logic) no_discovery)))"
    by (rule GameLogic_tick_returns) (simp_all add: philosopher_logic_def)
  show ?thesis
    unfolding ret
    by (simp add: philosopher_logic_def tick_simulate_resources tick_simulate_entities
        dict_contains_def add_amount_def energy_rate_eq apply_production_def
        claimed_production_rate_def task_feeds_def gain_experience_def gathering_def
        generate_entity_def unit_traits_def dict_get_def)
qed

text \<open>
  C4, as the code behaves. After a tick, the production rate of \<^verbatim>\<open>energy\<close> (when that
  resource exists) is the sum, over the entities of type \<^verbatim>\<open>gatherer\<close> whose current task
  is \<^verbatim>\<open>gathering\<close>, of efficiency times (1 + gathering experience / 10), the experience
  being the one after this tick's gain; it does not depend on any stored rate, since the
  entities after the tick are determined by the entities before it. When every gathering
  entity is of type \<^verbatim>\<open>gatherer\<close> this is the sum that C4 states. The rate of every other
  resource is left as stored.
\<close>

theorem production_rate_recomputed:
  assumes "GameLogic_tick gl g = Inr (d, gl', g')"
  shows "(\<forall>r'. map_of (resources (state gl')) ''energy'' = Some r' \<longrightarrow>
            production_rate r' =
              sum_list (map (\<lambda>e. efficiency (traits e) *
                                  (1 + dict_get (experience e) ''gathering'' 0 * (1 / 10)))
                 (filter (\<lambda>e. entity_type e = ''gatherer'' \<and> current_task e = Some ''gathering'')
                    (map snd (entities (state gl'))))) \<and>
            (list_all (\<lambda>(k, e). gathering e \<longrightarrow> entity_type e = ''gatherer'') (entities (state gl)) \<longrightarrow>
               production_rate r' = claimed_production_rate (entities (state gl')) ''energy'')) \<and>
         entities (state gl') = map (\<lambda>(k, e). (k, gain_experience e)) (entities (state gl)) \<and>
         (\<forall>k. k \<noteq> ''energy'' \<longrightarrow>
            map_option production_rate (map_of (resources (state gl')) k) =
            map_option production_rate (map_of (resources (state gl)) k))"
proof -
  let ?s = "state gl"
  let ?es' = "map (\<lambda>(k, e). (k, gain_experience e)) (entities ?s)"
  have st: "state gl' = fst (snd (tick_simulate ?s g))"
    by (rule GameLogic_tick_Inr(1)[OF assms])
  have es: "entities (state gl') = ?es'"
    by (simp add: st tick_simulate_entities)
  have rate: "production_rate r' = energy_rate ?es'"
    if "map_of (resources (state gl')) ''energy'' = Some r'" for r'
    using that
    by (auto simp: st tick_simulate_resources map_of_apply_production map_of_dict_modify
        dict_contains_def split: if_splits)
  have same: "energy_rate ?es' = claimed_production_rate ?es' ''energy''"
    if "list_all (\<lambda>(k, e). gathering e \<longrightarrow> entity_type e = ''gatherer'') (entities ?s)"
  proof -
    have "filter (\<lambda>e. entity_type e = ''gatherer'' \<and> gathering e) (map snd ?es') =
          filter gathering (map snd ?es')"
      using that by (rule gatherers_only)
    then show ?thesis
      by (simp add: energy_rate_eq claimed_rate_energy)
  qed
  have other: "map_option production_rate (map_of (resources (state gl')) k) =
               map_option production_rate (map_of (resources ?s) k)"
    if "k \<noteq> ''energy''" for k
    using that
    by (cases "map_of (resources ?s) k")
      (simp_all add: st tick_simulate_resources map_of_apply_production map_of_dict_modify
        add_amount_def)
  show ?thesis
    using rate same other es
    by (simp add: energy_rate_def)
qed

theorem production_rate_recomputed_witness:
  "(case GameLogic_tick scenario_logic no_discovery of
      Inl err \<Rightarrow> False
    | Inr (d, gl', g') \<Rightarrow>
        map_option production_rate (map_of (resources (state gl')) ''energy'') = Some (303 / 100) \<and>
        claimed_production_rate (entities (state gl')) ''energy'' = 303 / 100)"
proof -
  note ret = scenario_logic_tick[of no_discovery]
  show ?thesis
    using production_rate_recomputed[OF ret]
    unfolding ret
    by (simp add: scenario_logic_def scenario_state_eq tick_simulate_resources
        tick_simulate_entities dict_contains_def add_amount_def energy_rate_eq
        apply_production_def total_yield_def claimed_rate_energy
        scenario_entity_facts[OF scenario_entity_generate])
qed

lemma map_upt_shift: "map g [0..<Suc n] = g 0 # map (\<lambda>i. g (Suc i)) [0..<n]"
  by (simp add: map_upt_Suc del: upt_Suc)

lemma discoveries_zip:
  "discoveries es g =
     map (\<lambda>(e, r). discovery_event e)
       (filter (\<lambda>(e, r). r < 5 / 100)
          (zip (map gain_experience (filter gathering es))
               (map g [0..<length (filter gathering es)])))"
proof (induction es arbitrary: g)
  case Nil
  then show ?case by simp
next
  case (Cons e es)
  show ?case
  proof (cases "gathering e")
    case True
    then show ?thesis
      by (simp add: Cons.IH map_upt_shift del: upt_Suc)
  next
    case False
    then show ?thesis
      by (simp add: Cons.IH)
  qed
qed

lemma filter_gathering_gain:
  "filter gathering (map snd (map (\<lambda>(k, e). (k, gain_experience e)) es)) =
   map gain_experience (filter gathering (map snd es))"
  by (induction es) (auto simp: gathering_gain)

lemma tick_simulate_state_rng: "fst (snd (tick_simulate s g)) = fst (snd (tick_simulate s h))"
  by (simp add: tick_simulate_eq)

text \<open>
  C8 fails on the code: \<^verbatim>\<open>tick\<close> takes no randomness source, and from the same game
  object it returns different events for different states of the module-level generator.
\<close>

theorem hidden_generator_counterexample:
  "map_sum id (\<lambda>(d, gl', g'). length (td_events d)) (GameLogic_tick scenario_logic no_discovery) = Inr 0 \<and>
   map_sum id (\<lambda>(d, gl', g'). length (td_events d)) (GameLogic_tick scenario_logic always_discovery) = Inr 3"
  by (simp add: GameLogic_tick_cases tick_data_def tick_simulate_events discoveries_zip
      scenario_logic_def scenario_state_eq no_discovery_def always_discovery_def
      scenario_entity_facts[OF scenario_entity_generate])

text \<open>
  C8, as the code behaves. The draws come from the module-level generator of the
  \<^verbatim>\<open>random\<close> module: one draw for each entity whose task is \<^verbatim>\<open>gathering\<close>, in the
  order of the entity dict, and the entity's discovery event is emitted exactly when its
  draw is below 0.05. The generator is advanced by the number of gathering entities. The
  state and the database after the tick do not depend on the draws, and two ticks from
  equal game objects whose generators agree on these draws return the same data, state
  and database.
\<close>

theorem discovery_draws:
  assumes "GameLogic_tick gl g = Inr (d, gl', g')"
  shows "td_events d =
           map (\<lambda>(e, r). discovery_event e)
             (filter (\<lambda>(e, r). r < 5 / 100)
                (zip (filter gathering (map snd (entities (state gl'))))
                     (map g [0..<draws (state gl)])))
           @ (if tick (state gl') mod auto_save_interval gl = 0 then [system_event] else []) \<and>
         g' = (\<lambda>i. g (i + draws (state gl))) \<and>
         (\<forall>h. (\<forall>i < draws (state gl). h i = g i) \<longrightarrow>
              GameLogic_tick gl h = Inr (d, gl', \<lambda>i. h (i + draws (state gl)))) \<and>
         (\<forall>h d2 gl2 h'. GameLogic_tick gl h = Inr (d2, gl2, h') \<longrightarrow> gl2 = gl')"
proof -
  let ?s = "state gl"
  have st: "state gl' = fst (snd (tick_simulate ?s g))"
    by (rule GameLogic_tick_Inr(1)[OF assms])
  have ev: "td_events d =
      discoveries (map snd (entities ?s)) g @
      (if tick (state gl') mod auto_save_interval gl = 0 then [system_event] else [])"
    using GameLogic_tick_Inr(5)[OF assms] by (simp add: tick_simulate_events)
  have 1: "td_events d =
           map (\<lambda>(e, r). discovery_event e)
             (filter (\<lambda>(e, r). r < 5 / 100)
                (zip (filter gathering (map snd (entities (state gl'))))
                     (map g [0..<draws (state gl)])))
           @ (if tick (state gl') mod auto_save_interval gl = 0 then [system_event] else [])"
    unfolding ev
    by (simp only: discoveries_zip st tick_simulate_entities filter_gathering_gain draws_def)
  have 2: "g' = (\<lambda>i. g (i + draws ?s))"
    using GameLogic_tick_Inr(2)[OF assms] by (simp add: tick_simulate_rng)
  have 3: "GameLogic_tick gl h = Inr (d, gl', \<lambda>i. h (i + draws ?s))"
    if "\<forall>i < draws ?s. h i = g i" for h
  proof -
    have m: "map h [0..<draws ?s] = map g [0..<draws ?s]"
      using that by simp
    have "fst (tick_simulate ?s h) = fst (tick_simulate ?s g)"
      by (simp only: tick_simulate_events discoveries_zip draws_def[symmetric] m)
    moreover have "fst (snd (tick_simulate ?s h)) = fst (snd (tick_simulate ?s g))"
      by (rule tick_simulate_state_rng)
    ultimately show ?thesis
      using assms
      by (simp add: GameLogic_tick_cases tick_simulate_rng split: if_splits sum.splits)
  qed
  have 4: "gl2 = gl'" if "GameLogic_tick gl h = Inr (d2, gl2, h')" for h d2 gl2 h'
  proof -
    have "fst (snd (tick_simulate ?s h)) = fst (snd (tick_simulate ?s g))"
      by (rule tick_simulate_state_rng)
    then show ?thesis
      using assms that
      by (auto simp: GameLogic_tick_cases split: if_splits sum.splits)
  qed
  show ?thesis
    using 1 2 3 4 by blast
qed

theorem discovery_draws_witness:
  "(case GameLogic_tick scenario_logic always_discovery of
      Inl err \<Rightarrow> False
    | Inr (d, gl', g') \<Rightarrow>
        map (\<lambda>ev. map_of ev ''entity'') (td_events d) = [Some ''Zara'', Some ''Kael'', Some ''Luna''] \<and>
        g' 0 = always_discovery 3)"
proof -
  note ret = scenario_logic_tick[of always_discovery]
  show ?thesis
    using discovery_draws[OF ret]
    unfolding ret
    by (simp add: scenario_logic_def scenario_state_eq tick_simulate_entities
        tick_simulate_tick draws_def always_discovery_def discovery_event_def
        gain_experience_def gathering_def generate_entity_def upt_rec)
qed

lemma dict_modify_absent: "\<not> dict_contains d k \<Longrightarrow> dict_modify k f d = d"
  by (induction d) (auto simp: dict_contains_def split: if_splits)

lemma dict_modify_keys: "map fst (dict_modify k f d) = map fst d"
  by (induction d) auto

lemma dict_get_gain:
  "gathering e \<Longrightarrow>
   dict_get (experience (gain_experience e)) ''gathering'' 0 =
   dict_get (experience e) ''gathering'' 0 + learning_rate (traits e)"
  by (simp add: gain_experience_def dict_get_def map_of_dict_set)

lemma experience_generate: "experience (generate_entity i t tr n) = [(''gathering'', 0)]"
  by (simp add: generate_entity_def)

text \<open>
  C9 fails on the code, twice: a tick can raise (here the save of the tenth tick is
  refused, a technology being listed twice), and with no \<^verbatim>\<open>energy\<close> resource the
  gathering entity leaves the resources alone but still gains experience.
\<close>

theorem missing_energy_counterexample:
  "(case GameLogic_tick twice_logic no_discovery of
      Inl (err, s) \<Rightarrow> err = IntegrityError
    | Inr res \<Rightarrow> False) \<and>
   (case GameLogic_tick no_energy_logic no_discovery of
      Inl err \<Rightarrow> False
    | Inr (d, gl', g') \<Rightarrow>
        resources (state gl') = [] \<and>
        map (\<lambda>(k, e). experience e) (entities (state no_energy_logic)) = [[(''gathering'', 0)]] \<and>
        map (\<lambda>(k, e). experience e) (entities (state gl')) = [[(''gathering'', 1 / 10)]])"
proof -
  have "case GameLogic_tick twice_logic no_discovery of
          Inl (err, s) \<Rightarrow> err = IntegrityError | Inr res \<Rightarrow> False"
    unfolding twice_logic_tick by simp
  moreover have "case GameLogic_tick no_energy_logic no_discovery of
      Inl err \<Rightarrow> False
    | Inr (d, gl', g') \<Rightarrow>
        resources (state gl') = [] \<and>
        map (\<lambda>(k, e). experience e) (entities (state no_energy_logic)) = [[(''gathering'', 0)]] \<and>
        map (\<lambda>(k, e). experience e) (entities (state gl')) = [[(''gathering'', 1 / 10)]]"
    by (simp add: GameLogic_tick_cases no_energy_logic_def no_energy_state_def
        tick_simulate_resources tick_simulate_entities dict_contains_def apply_production_def
        scenario_entity_facts[OF scenario_entity_generate] experience_generate)
  ultimately show ?thesis by simp
qed

text \<open>
  C9, as the code behaves. For every state, a tick raises only from its auto-save: it
  returns exactly when the interval is not zero and, if the incremented tick is a multiple
  of the interval, the save succeeds. The entity step itself never raises. When the state
  has no \<^verbatim>\<open>energy\<close> resource, no entity changes any resource (the resources after the
  tick, returned or raised, are those before it with their stored rates applied), but a
  gathering entity is not a no-op: it still gains its learning rate in gathering
  experience and still takes its draw from the generator, with the discovery event when
  the draw is below 0.05.
\<close>

theorem tick_missing_energy:
  "((\<exists>res. GameLogic_tick gl g = Inr res) \<longleftrightarrow>
      auto_save_interval gl \<noteq> 0 \<and>
      ((tick (state gl) + 1) mod auto_save_interval gl = 0 \<longrightarrow>
         (\<exists>db'. save_game_state (database gl) (state_after (GameLogic_tick gl g)) = Inr db'))) \<and>
   (\<not> dict_contains (resources (state gl)) ''energy'' \<longrightarrow>
      resources (state_after (GameLogic_tick gl g)) = apply_production (resources (state gl)) \<and>
      entities (state_after (GameLogic_tick gl g)) =
        map (\<lambda>(k, e). (k, gain_experience e)) (entities (state gl)) \<and>
      list_all (\<lambda>(k, e). gathering e \<longrightarrow>
                  dict_get (experience (gain_experience e)) ''gathering'' 0 =
                  dict_get (experience e) ''gathering'' 0 + learning_rate (traits e))
        (entities (state gl)) \<and>
      (\<forall>e h. process_entity_action (resources (state gl)) e h =
                (if current_task e = Some ''gathering''
                 then (if h 0 < 5 / 100 then Some (discovery_event (gain_experience e)) else None,
                       resources (state gl), gain_experience e, \<lambda>n. h (Suc n))
                 else (None, resources (state gl), e, h))))"
proof -
  have ret: "(\<exists>res. GameLogic_tick gl g = Inr res) \<longleftrightarrow>
      auto_save_interval gl \<noteq> 0 \<and>
      ((tick (state gl) + 1) mod auto_save_interval gl = 0 \<longrightarrow>
         (\<exists>db'. save_game_state (database gl) (state_after (GameLogic_tick gl g)) = Inr db'))"
    unfolding state_after_tick
    by (auto simp: GameLogic_tick_cases split: sum.splits)
  have post: "resources (state_after (GameLogic_tick gl g)) = apply_production (resources (state gl)) \<and>
      entities (state_after (GameLogic_tick gl g)) =
        map (\<lambda>(k, e). (k, gain_experience e)) (entities (state gl))"
    if "\<not> dict_contains (resources (state gl)) ''energy''"
    using that by (simp add: state_after_tick tick_simulate_resources tick_simulate_entities)
  have gain: "list_all (\<lambda>(k, e). gathering e \<longrightarrow>
                        dict_get (experience (gain_experience e)) ''gathering'' 0 =
                        dict_get (experience e) ''gathering'' 0 + learning_rate (traits e)) es"
    for es :: "(string, Entity) dict"
    by (auto simp: list_all_iff dict_get_gain)
  have step: "process_entity_action (resources (state gl)) e h =
                (if current_task e = Some ''gathering''
                 then (if h 0 < 5 / 100 then Some (discovery_event (gain_experience e)) else None,
                       resources (state gl), gain_experience e, \<lambda>n. h (Suc n))
                 else (None, resources (state gl), e, h))"
    if "\<not> dict_contains (resources (state gl)) ''energy''" for e h
    using that by (simp add: process_entity_action_eq gathering_def)
  show ?thesis
    using ret post gain step by blast
qed

theorem tick_missing_energy_witness:
  "\<not> dict_contains (resources (state no_energy_logic)) ''energy'' \<and>
   (\<exists>res. GameLogic_tick no_energy_logic no_discovery = Inr res) \<and>
   resources (state_after (GameLogic_tick no_energy_logic no_discovery)) = [] \<and>
   (case process_entity_action (resources (state no_energy_logic))
           (generate_entity ''entity_0'' ''gatherer'' unit_traits ''Zara'') no_discovery of
      (ev, rs', e', h') \<Rightarrow> ev = None \<and> rs' = [] \<and> experience e' = [(''gathering'', 1 / 10)])"
proof -
  have 1: "\<not> dict_contains (resources (state no_energy_logic)) ''energy''"
    by (simp add: no_energy_logic_def no_energy_state_def dict_contains_def)
  note t = tick_missing_energy[of no_energy_logic no_discovery]
  have 2: "\<exists>res. GameLogic_tick no_energy_logic no_discovery = Inr res"
  proof -
    have "auto_save_interval no_energy_logic \<noteq> 0"
      and "(tick (state no_energy_logic) + 1) mod auto_save_interval no_energy_logic \<noteq> 0"
      by (simp_all add: no_energy_logic_def no_energy_state_def)
    then show ?thesis using t by blast
  qed
  have 4: "resources (state no_energy_logic) = []"
    by (simp add: no_energy_logic_def no_energy_state_def)
  have 3: "resources (state_after (GameLogic_tick no_energy_logic no_discovery)) = []"
    using t 1 by (simp add: 4 apply_production_def)
  have 5: "process_entity_action (resources (state no_energy_logic))
           (generate_entity ''entity_0'' ''gatherer'' unit_traits ''Zara'') no_discovery =
           (None, [], gain_experience (generate_entity ''entity_0'' ''gatherer'' unit_traits ''Zara''),
            \<lambda>n. no_discovery (Suc n))"
    using t 1 by (simp add: 4 generate_entity_def no_discovery_def)
  show ?thesis
    using 1 2 3
    by (simp add: 5 scenario_entity_facts(3)[OF scenario_entity_generate])
qed

text \<open>
  C3 fails on the code: without an \<^verbatim>\<open>energy\<close> resource the boost of a gathering entity
  reports success and changes no resource.
\<close>

theorem boost_without_energy_counterexample:
  "apply_player_boost no_energy_state ''entity_0'' 2 = (Boosted ''Zara'' 2, no_energy_state)"
  by (simp add: apply_player_boost_def no_energy_state_def dict_contains_def generate_entity_def
      unit_traits_def)

text \<open>
  C3, as the code behaves. With an id that is not in the entity dict, or with an entity
  whose current task is not \<^verbatim>\<open>gathering\<close>, the boost returns the failure message and
  leaves the state unchanged. With a gathering entity it returns the success message that
  carries multiplier times efficiency; the state is then unchanged when there is no
  \<^verbatim>\<open>energy\<close> resource, and otherwise only the amount of \<^verbatim>\<open>energy\<close> has changed, by
  exactly multiplier times efficiency.
\<close>

theorem boost_outcome:
  "(case map_of (entities s) eid of
      None \<Rightarrow> apply_player_boost s eid m = (Boost_failed, s)
    | Some e \<Rightarrow>
        if current_task e \<noteq> Some ''gathering''
        then apply_player_boost s eid m = (Boost_failed, s)
        else fst (apply_player_boost s eid m) = Boosted (entity_name e) (m * efficiency (traits e)) \<and>
             (case map_of (resources s) ''energy'' of
                None \<Rightarrow> snd (apply_player_boost s eid m) = s
              | Some r \<Rightarrow>
                  snd (apply_player_boost s eid m) =
                    s\<lparr>resources := resources (snd (apply_player_boost s eid m))\<rparr> \<and>
                  map fst (resources (snd (apply_player_boost s eid m))) = map fst (resources s) \<and>
                  map_of (resources (snd (apply_player_boost s eid m))) ''energy'' =
                    Some (r\<lparr>amount := amount r + m * efficiency (traits e)\<rparr>) \<and>
                  (\<forall>k. k \<noteq> ''energy'' \<longrightarrow>
                     map_of (resources (snd (apply_player_boost s eid m))) k = map_of (resources s) k)))"
  by (auto simp: apply_player_boost_def dict_contains_def map_of_dict_modify dict_modify_keys
      Let_def split: option.splits)

theorem boost_outcome_witness:
  "apply_player_boost scenario_state ''nobody'' 2 = (Boost_failed, scenario_state) \<and>
   fst (apply_player_boost scenario_state ''entity_0'' 2) = Boosted ''Zara'' 2 \<and>
   map_option amount (map_of (resources (snd (apply_player_boost scenario_state ''entity_0'' 2))) ''energy'')
     = Some 12"
  using boost_outcome[of scenario_state "''nobody''" 2] boost_outcome[of scenario_state "''entity_0''" 2]
  by (simp add: scenario_state_eq generate_entity_def unit_traits_def)

lemma input_handler_queue:
  "input_queue (input_handler d keys) = input_queue d @ filter (\<lambda>k. k \<noteq> - 1) keys"
  unfolding input_handler_def
  by (induction keys arbitrary: d) (auto simp: input_handler_step_def)

lemma input_handler_other:
  "current_selection (input_handler d keys) = current_selection d \<and>
   selectable_items (input_handler d keys) = selectable_items d"
  unfolding input_handler_def
  by (induction keys arbitrary: d) (auto simp: input_handler_step_def)

lemma get_input_queue:
  "input_queue d = key # q \<Longrightarrow> input_queue (snd (get_input d)) = q"
  by (simp add: get_input_def Let_def)

lemma get_input_head:
  "input_queue d = key # q \<Longrightarrow>
   fst (get_input d) = fst (get_input (d\<lparr>input_queue := [key]\<rparr>))"
  by (simp add: get_input_def Let_def)

text \<open>
  C6 fails on the code: after the keys \<^verbatim>\<open>s\<close> and \<^verbatim>\<open>q\<close> have been put, two keys are
  waiting, and the next \<^verbatim>\<open>get_input\<close> returns \<^verbatim>\<open>save\<close> (the older one) and keeps
  \<^verbatim>\<open>q\<close> in the queue.
\<close>

theorem latest_wins_counterexample:
  "input_queue (input_handler idle_display [ord CHR ''s'', ord CHR ''q'']) = [115, 113] \<and>
   fst (get_input (input_handler idle_display [ord CHR ''s'', ord CHR ''q''])) = Some ''save'' \<and>
   input_queue (snd (get_input (input_handler idle_display [ord CHR ''s'', ord CHR ''q'']))) = [113]"
  by (simp add: input_handler_def input_handler_step_def idle_display_def get_input_def ord_def
      KEY_UP_def KEY_DOWN_def)

text \<open>
  C6, as the code behaves. The channel is an unbounded first-in first-out queue of keys:
  the input thread appends every key read (all but the value -1 of an empty read) and
  drops none, and \<^verbatim>\<open>get_input\<close> takes the oldest waiting key, returns the command of
  that key and leaves the later keys waiting in their order. So after keys \<open>k1\<close> and
  \<open>k2\<close> are put into an empty queue, the next drain observes \<open>k1\<close> and \<open>k2\<close> is
  retained.
\<close>

theorem input_queue_fifo:
  "input_queue (input_handler d keys) = input_queue d @ filter (\<lambda>k. k \<noteq> - 1) keys \<and>
   (\<forall>key q. input_queue d = key # q \<longrightarrow>
      input_queue (snd (get_input d)) = q \<and>
      fst (get_input d) = fst (get_input (d\<lparr>input_queue := [key]\<rparr>))) \<and>
   (\<forall>k1 k2. input_queue d = [] \<and> k1 \<noteq> - 1 \<and> k2 \<noteq> - 1 \<longrightarrow>
      fst (get_input (input_handler d [k1, k2])) = fst (get_input (d\<lparr>input_queue := [k1]\<rparr>)) \<and>
      input_queue (snd (get_input (input_handler d [k1, k2]))) = [k2])"
proof -
  have two: "fst (get_input (input_handler d [k1, k2])) = fst (get_input (d\<lparr>input_queue := [k1]\<rparr>)) \<and>
      input_queue (snd (get_input (input_handler d [k1, k2]))) = [k2]"
    if "input_queue d = []" "k1 \<noteq> - 1" "k2 \<noteq> - 1" for k1 k2
    using that
    by (simp add: input_handler_def input_handler_step_def get_input_def Let_def)
  show ?thesis
    using input_handler_queue[of d keys] get_input_queue[of d] get_input_head[of d] two
    by blast
qed

theorem input_queue_fifo_witness:
  "fst (get_input (input_handler idle_display [ord CHR ''q'', - 1, ord CHR ''s''])) = Some ''quit'' \<and>
   input_queue (snd (get_input (input_handler idle_display [ord CHR ''q'', - 1, ord CHR ''s''])))
     = [ord CHR ''s'']"
  using input_queue_fifo[of idle_display "[ord CHR ''q'', - 1, ord CHR ''s'']"]
  by (simp add: idle_display_def get_input_def ord_def KEY_UP_def KEY_DOWN_def)

lemma insert_rows_ok:
  "distinct (map pk rows) \<Longrightarrow> pk ` set rows \<inter> pk ` set t = {} \<Longrightarrow>
   insert_rows pk rows t = Inr (t @ rows)"
proof (induction rows arbitrary: t)
  case Nil
  then show ?case by simp
next
  case (Cons r rows)
  have "pk ` set rows \<inter> pk ` set (t @ [r]) = {}"
    using Cons.prems by auto
  with Cons.prems Cons.IH[of "t @ [r]"] show ?case
    by (auto simp: insert_row_def)
qed

lemma experience_rows_pk:
  "map entity_experience_pk (experience_rows gid e) =
     map (\<lambda>t. (gid, entity_id e, t)) (map fst (experience e))"
  by (simp add: experience_rows_def entity_experience_pk_def split_def)

lemma experience_rows_distinct:
  "distinct (map fst (experience e)) \<Longrightarrow> distinct (map entity_experience_pk (experience_rows gid e))"
  unfolding experience_rows_pk
  by (simp add: distinct_map inj_on_def)

lemma save_entities_ok:
  assumes "distinct (map entity_id es)"
    and "\<forall>e \<in> set es. distinct (map fst (experience e))"
    and "\<forall>e \<in> set es. (gid, entity_id e) \<notin> entities_pk ` set et"
    and "\<forall>e \<in> set es. \<forall>(g, i, t, x) \<in> set xt. \<not> (g = gid \<and> i = entity_id e)"
  shows "save_entities gid es (et, xt) =
           Inr (et @ map (entity_row gid) es, xt @ concat (map (experience_rows gid) es))"
  using assms
proof (induction es arbitrary: et xt)
  case Nil
  then show ?case by simp
next
  case (Cons e es)
  let ?et = "et @ [entity_row gid e]"
  let ?xt = "xt @ experience_rows gid e"
  have 1: "insert_row entities_pk (entity_row gid e) et = Inr ?et"
    using Cons.prems(3) by (simp add: insert_row_def entity_row_def entities_pk_def)
  have "entity_experience_pk ` set (experience_rows gid e) \<inter> entity_experience_pk ` set xt = {}"
    using Cons.prems(4)
    by (fastforce simp: experience_rows_def entity_experience_pk_def)
  then have 2: "insert_rows entity_experience_pk (experience_rows gid e) xt = Inr ?xt"
    using Cons.prems(2) by (intro insert_rows_ok experience_rows_distinct) auto
  have 3: "\<forall>e' \<in> set es. (gid, entity_id e') \<notin> entities_pk ` set ?et"
    using Cons.prems(1,3) by (auto simp: entity_row_def entities_pk_def image_iff)
  have 4: "\<forall>e' \<in> set es. \<forall>(g, i, t, x) \<in> set ?xt. \<not> (g = gid \<and> i = entity_id e')"
    using Cons.prems(1,4) by (auto simp: experience_rows_def image_iff)
  have "save_entities gid es (?et, ?xt) =
          Inr (?et @ map (entity_row gid) es, ?xt @ concat (map (experience_rows gid) es))"
    using Cons.prems(1,2) by (intro Cons.IH 3 4) auto
  then show ?case
    using 1 2 by (simp add: experience_rows_def[symmetric])
qed

lemma dict_set_fresh: "k \<notin> fst ` set d \<Longrightarrow> dict_set k v d = d @ [(k, v)]"
  by (induction d) auto

lemma fold_dict_set:
  "distinct (map fst acc @ map kf rows) \<Longrightarrow>
   fold (\<lambda>row d. dict_set (kf row) (vf row) d) rows acc = acc @ map (\<lambda>row. (kf row, vf row)) rows"
proof (induction rows arbitrary: acc)
  case Nil
  then show ?case by simp
next
  case (Cons r rows)
  have "dict_set (kf r) (vf r) acc = acc @ [(kf r, vf r)]"
    using Cons.prems by (intro dict_set_fresh) auto
  moreover have "distinct (map fst (acc @ [(kf r, vf r)]) @ map kf rows)"
    using Cons.prems by auto
  ultimately show ?case
    using Cons.IH[of "acc @ [(kf r, vf r)]"] by simp
qed

lemma keyed_by_values: "keyed_by f d \<Longrightarrow> map (\<lambda>v. (f v, v)) (map snd d) = d"
  unfolding keyed_by_def
  by (induction d) auto

lemma keyed_by_ids: "list_all (\<lambda>(k, v). f v = k) d \<Longrightarrow> map f (map snd d) = map fst d"
  by (induction d) auto

lemma keyed_by_distinct: "keyed_by f d \<Longrightarrow> distinct (map f (map snd d))"
  using keyed_by_ids[of f d] by (simp add: keyed_by_def del: map_map)

lemma load_experience:
  assumes "distinct (map entity_id es)" and "e \<in> set es"
    and "\<forall>(g, i, t, x) \<in> set xt. g \<noteq> gid"
  shows "filter (\<lambda>(g, i, _). g = gid \<and> i = entity_id e) (xt @ concat (map (experience_rows gid) es))
         = experience_rows gid e"
proof -
  define P :: "entity_experience_row \<Rightarrow> bool"
    where "P = (\<lambda>(g, i, _). g = gid \<and> i = entity_id e)"
  have old: "filter P xt = []"
    using assms(3) by (auto simp: filter_empty_conv P_def)
  have other: "filter P (experience_rows gid e') = []" if "entity_id e' \<noteq> entity_id e" for e'
    using that by (auto simp: experience_rows_def filter_empty_conv P_def)
  have own: "filter P (experience_rows gid e) = experience_rows gid e"
    by (auto simp: experience_rows_def P_def intro!: filter_True)
  have others: "filter P (concat (map (experience_rows gid) es')) = []"
    if "\<forall>e' \<in> set es'. entity_id e' \<noteq> entity_id e" for es'
    using that by (induction es') (simp_all add: other)
  have "filter P (concat (map (experience_rows gid) es)) = experience_rows gid e"
    using assms(1,2)
  proof (induction es)
    case Nil
    then show ?case by simp
  next
    case (Cons a es)
    show ?case
    proof (cases "a = e")
      case True
      then have "\<forall>e' \<in> set es. entity_id e' \<noteq> entity_id e"
        using Cons.prems(1) by (auto simp: image_iff)
      with True show ?thesis by (simp add: own others)
    next
      case False
      then have "e \<in> set es" and "entity_id a \<noteq> entity_id e"
        using Cons.prems by (auto simp: image_iff)
      with Cons show ?thesis by (simp add: other)
    qed
  qed
  with old show ?thesis by (simp add: P_def)
qed

lemma load_entity_row:
  assumes "filter (\<lambda>(g, i, _). g = gid \<and> i = entity_id e) xt = experience_rows gid e"
    and "distinct (map fst (experience e))"
    and "sorted (map fst (experience e))"
  shows "load_entity xt (entity_row gid e) = e"
proof -
  have "map (\<lambda>(_, _, task_type, _). task_type) (experience_rows gid e) = map fst (experience e)"
    by (simp add: experience_rows_def split_def comp_def)
  then have "sort_key (\<lambda>(_, _, task_type, _). task_type) (experience_rows gid e)
             = experience_rows gid e"
    using assms(3) by (intro sort_key_id_if_sorted) simp
  then have sel: "select_by_index (\<lambda>(_, _, task_type, _). task_type)
               (\<lambda>(g, i, _). g = gid \<and> i = entity_id e) xt = experience_rows gid e"
    by (simp only: select_by_index_def assms(1))
  have "fold (\<lambda>(_, _, task_type, x) d. dict_set task_type x d) (experience_rows gid e) []
        = experience e"
  proof -
    have "fold (\<lambda>row d. dict_set (fst (snd (snd row))) (snd (snd (snd row))) d)
            (experience_rows gid e) [] =
          [] @ map (\<lambda>row. (fst (snd (snd row)), snd (snd (snd row)))) (experience_rows gid e)"
      using assms(2)
      by (intro fold_dict_set) (simp add: experience_rows_def split_def comp_def)
    then show ?thesis
      by (simp add: experience_rows_def split_def comp_def)
  qed
  then show ?thesis
    unfolding load_entity_def entity_row_def prod.case sel
    by simp
qed

lemma filter_kept:
  "(\<forall>r \<in> set old. \<not> P r) \<Longrightarrow> (\<forall>r \<in> set new. P r) \<Longrightarrow> filter P (old @ new) = new"
  by (simp add: filter_empty_conv)

lemma select_kept:
  assumes "\<forall>r \<in> set old. \<not> P r" and "\<forall>r \<in> set new. P r" and "sorted (map kf new)"
  shows "select_by_index kf P (old @ new) = new"
proof -
  have "filter P (old @ new) = new"
    using assms(1,2) by (rule filter_kept)
  then show ?thesis
    using assms(3) by (simp only: select_by_index_def sort_key_id_if_sorted)
qed

lemma save_persistable:
  assumes "persistable s"
  shows "save_game_state db s = Inr (saved_database db s)"
proof -
  let ?rt = "filter (\<lambda>(g, _). g \<noteq> 1) (resources_tbl db)"
  let ?et = "filter (\<lambda>(g, _). g \<noteq> 1) (entities_tbl db)"
  let ?xt = "filter (\<lambda>(g, _). g \<noteq> 1) (entity_experience_tbl db)"
  let ?tt = "filter (\<lambda>(g, _). g \<noteq> 1) (technologies_tbl db)"
  let ?rrows = "map (\<lambda>r. (1::int, resource_name r, amount r, production_rate r)) (map snd (resources s))"
  let ?trows = "map (\<lambda>tech. (1::int, tech, tick s)) (technologies s)"
  have kr: "keyed_by resource_name (resources s)" and ke: "keyed_by entity_id (entities s)"
    and xe: "list_all (\<lambda>(k, e). distinct (map fst (experience e))) (entities s)"
    and dt: "distinct (technologies s)"
    and fits: "sqlite_integer (tick s) \<and> sqlite_integer (prestige_tokens s)"
    using assms by (auto simp: persistable_def ordered_state_def list_all_iff)
  have "map resources_pk ?rrows = map (\<lambda>n. (1, n)) (map resource_name (map snd (resources s)))"
    by (simp add: resources_pk_def)
  then have "distinct (map resources_pk ?rrows)"
    using keyed_by_distinct[OF kr] by (simp add: distinct_map inj_on_def del: map_map)
  moreover have "resources_pk ` set ?rrows \<inter> resources_pk ` set ?rt = {}"
    by (auto simp: resources_pk_def)
  ultimately have 1: "insert_rows resources_pk ?rrows ?rt = Inr (?rt @ ?rrows)"
    by (rule insert_rows_ok)
  have 2: "save_entities 1 (map snd (entities s)) (?et, ?xt) =
      Inr (?et @ map (entity_row 1) (map snd (entities s)),
           ?xt @ concat (map (experience_rows 1) (map snd (entities s))))"
  proof (rule save_entities_ok)
    show "distinct (map entity_id (map snd (entities s)))"
      by (rule keyed_by_distinct[OF ke])
    show "\<forall>e \<in> set (map snd (entities s)). distinct (map fst (experience e))"
      using xe by (auto simp: list_all_iff)
    show "\<forall>e \<in> set (map snd (entities s)). (1, entity_id e) \<notin> entities_pk ` set ?et"
      by (auto simp: entities_pk_def)
    show "\<forall>e \<in> set (map snd (entities s)). \<forall>(g, i, t, x) \<in> set ?xt. \<not> (g = 1 \<and> i = entity_id e)"
      by auto
  qed
  have "map technologies_pk ?trows = map (\<lambda>n. (1, n)) (technologies s)"
    by (simp add: technologies_pk_def)
  then have "distinct (map technologies_pk ?trows)"
    using dt by (simp add: distinct_map inj_on_def del: map_map)
  moreover have "technologies_pk ` set ?trows \<inter> technologies_pk ` set ?tt = {}"
    by (auto simp: technologies_pk_def)
  ultimately have 3: "insert_rows technologies_pk ?trows ?tt = Inr (?tt @ ?trows)"
    by (rule insert_rows_ok)
  show ?thesis
    unfolding save_game_state_def Let_def 1 2 3
    using fits by (simp add: saved_database_def)
qed

lemma save_refused:
  "\<not> (sqlite_integer (tick s) \<and> sqlite_integer (prestige_tokens s)) \<Longrightarrow>
   save_game_state db s = Inl OverflowError"
  by (simp add: save_game_state_def)

lemma save_fits:
  "save_game_state db s = Inr db' \<Longrightarrow> sqlite_integer (tick s) \<and> sqlite_integer (prestige_tokens s)"
  using save_refused[of s db] by auto

lemma load_resources:
  fixes g :: int
  assumes "keyed_by resource_name rs"
  shows "fold (\<lambda>(_, name, a, pr) d.
                 dict_set name \<lparr>resource_name = name, amount = a, production_rate = pr\<rparr> d)
           (map (\<lambda>r. (g, resource_name r, amount r, production_rate r)) (map snd rs)) [] = rs"
proof -
  let ?rows = "map (\<lambda>r. (g, resource_name r, amount r, production_rate r)) (map snd rs)"
  let ?kf = "\<lambda>row :: resources_row. fst (snd row)"
  let ?vf = "\<lambda>row :: resources_row.
               \<lparr>resource_name = fst (snd row), amount = fst (snd (snd row)),
                production_rate = snd (snd (snd row))\<rparr>"
  have "map ?kf ?rows = map resource_name (map snd rs)"
    by simp
  then have "distinct (map fst [] @ map ?kf ?rows)"
    using keyed_by_distinct[OF assms] by (simp del: map_map)
  then have "fold (\<lambda>row d. dict_set (?kf row) (?vf row) d) ?rows [] =
             [] @ map (\<lambda>row. (?kf row, ?vf row)) ?rows"
    by (rule fold_dict_set)
  moreover have "map (\<lambda>row. (?kf row, ?vf row)) ?rows = map (\<lambda>r. (resource_name r, r)) (map snd rs)"
    by simp
  ultimately show ?thesis
    using keyed_by_values[OF assms] by (simp add: split_def del: map_map)
qed

lemma load_entities:
  assumes "keyed_by entity_id es"
    and "list_all (\<lambda>(k, e). distinct (map fst (experience e)) \<and> sorted (map fst (experience e))) es"
    and "\<forall>(g, i, t, x) \<in> set xt. g \<noteq> gid"
  shows "fold (\<lambda>row d. let e = load_entity (xt @ concat (map (experience_rows gid) (map snd es))) row
                        in dict_set (entity_id e) e d)
           (map (entity_row gid) (map snd es)) [] = es"
proof -
  let ?xt = "xt @ concat (map (experience_rows gid) (map snd es))"
  let ?rows = "map (entity_row gid) (map snd es)"
  have dist: "distinct (map entity_id (map snd es))"
    by (rule keyed_by_distinct[OF assms(1)])
  have restored: "load_entity ?xt (entity_row gid e) = e" if "e \<in> set (map snd es)" for e
  proof (rule load_entity_row)
    show "filter (\<lambda>(g, i, _). g = gid \<and> i = entity_id e) ?xt = experience_rows gid e"
      by (rule load_experience[OF dist that assms(3)])
    show "distinct (map fst (experience e))"
      using that assms(2) by (auto simp: list_all_iff)
    show "sorted (map fst (experience e))"
      using that assms(2) by (auto simp: list_all_iff)
  qed
  have rows: "map (load_entity ?xt) ?rows = map snd es"
    using restored by (simp add: map_idI)
  let ?kf = "\<lambda>row. entity_id (load_entity ?xt row)"
  let ?vf = "\<lambda>row. load_entity ?xt row"
  have "map ?kf ?rows = map entity_id (map (load_entity ?xt) ?rows)"
    by simp
  then have kf: "map ?kf ?rows = map entity_id (map snd es)"
    by (simp only: rows)
  have "distinct (map fst [] @ map ?kf ?rows)"
    using dist by (simp only: kf) simp
  then have "fold (\<lambda>row d. dict_set (?kf row) (?vf row) d) ?rows [] =
             [] @ map (\<lambda>row. (?kf row, ?vf row)) ?rows"
    by (rule fold_dict_set)
  moreover have "map (\<lambda>row. (?kf row, ?vf row)) ?rows =
                 map (\<lambda>e. (entity_id e, e)) (map (load_entity ?xt) ?rows)"
    by simp
  ultimately have "fold (\<lambda>row d. dict_set (?kf row) (?vf row) d) ?rows [] =
                   map (\<lambda>e. (entity_id e, e)) (map snd es)"
    by (simp only: rows) simp
  then show ?thesis
    using keyed_by_values[OF assms(1)] by (simp add: Let_def del: map_map)
qed

lemma load_saved:
  assumes "ordered_state s"
  shows "load_game_state (saved_database db s) 1 = Some s"
proof -
  have kr: "keyed_by resource_name (resources s)" and ke: "keyed_by entity_id (entities s)"
    and xe: "list_all (\<lambda>(k, e). distinct (map fst (experience e)) \<and> sorted (map fst (experience e)))
               (entities s)"
    and sr: "sorted (map fst (resources s))" and se: "sorted (map fst (entities s))"
    and st: "sorted (technologies s)"
    using assms by (simp_all add: ordered_state_def)
  have nr: "sorted (map resource_name (map snd (resources s)))"
    using kr sr keyed_by_ids[of resource_name "resources s"]
    by (simp add: keyed_by_def del: map_map)
  have ne: "sorted (map entity_id (map snd (entities s)))"
    using ke se keyed_by_ids[of entity_id "entities s"]
    by (simp add: keyed_by_def del: map_map)
  have g: "filter (\<lambda>(i, _). i = 1) (game_state_tbl (saved_database db s)) =
           [(1, tick s, prestige_tokens s, player_boost s)]"
    unfolding saved_database_def by (simp add: filter_empty_conv split_def)
  have r: "select_by_index (\<lambda>(_, name, _). name) (\<lambda>(g, _). g = 1)
             (resources_tbl (saved_database db s)) =
           map (\<lambda>r. (1, resource_name r, amount r, production_rate r)) (map snd (resources s))"
  proof -
    have tbl: "resources_tbl (saved_database db s) =
            filter (\<lambda>(g, _). g \<noteq> 1) (resources_tbl db)
              @ map (\<lambda>r. (1, resource_name r, amount r, production_rate r)) (map snd (resources s))"
      by (simp add: saved_database_def)
    have keys: "map (\<lambda>(_, name, _). name)
            (map (\<lambda>r. (1::int, resource_name r, amount r, production_rate r)) (map snd (resources s)))
          = map resource_name (map snd (resources s))"
      by simp
    show ?thesis
      unfolding tbl
    proof (rule select_kept)
      show "\<forall>r \<in> set (filter (\<lambda>(g, _). g \<noteq> 1) (resources_tbl db)). \<not> (case r of (g, _) \<Rightarrow> g = 1)"
        by auto
      show "\<forall>r \<in> set (map (\<lambda>r. (1::int, resource_name r, amount r, production_rate r))
                          (map snd (resources s))). case r of (g, _) \<Rightarrow> g = 1"
        by auto
      show "sorted (map (\<lambda>(_, name, _). name)
              (map (\<lambda>r. (1::int, resource_name r, amount r, production_rate r)) (map snd (resources s))))"
        unfolding keys by (rule nr)
    qed
  qed
  have e: "select_by_index (\<lambda>(_, eid, _). eid) (\<lambda>(g, _). g = 1)
             (entities_tbl (saved_database db s)) =
           map (entity_row 1) (map snd (entities s))"
  proof -
    have tbl: "entities_tbl (saved_database db s) =
            filter (\<lambda>(g, _). g \<noteq> 1) (entities_tbl db) @ map (entity_row 1) (map snd (entities s))"
      by (simp add: saved_database_def)
    have keys: "map (\<lambda>(_, eid, _). eid) (map (entity_row 1) (map snd (entities s)))
          = map entity_id (map snd (entities s))"
      by (simp add: entity_row_def)
    show ?thesis
      unfolding tbl
    proof (rule select_kept)
      show "\<forall>r \<in> set (filter (\<lambda>(g, _). g \<noteq> 1) (entities_tbl db)). \<not> (case r of (g, _) \<Rightarrow> g = 1)"
        by auto
      show "\<forall>r \<in> set (map (entity_row 1) (map snd (entities s))). case r of (g, _) \<Rightarrow> g = 1"
        by (auto simp: entity_row_def)
      show "sorted (map (\<lambda>(_, eid, _). eid) (map (entity_row 1) (map snd (entities s))))"
        unfolding keys by (rule ne)
    qed
  qed
  have t: "select_by_index (\<lambda>(_, tech_name, _). tech_name) (\<lambda>(g, _). g = 1)
             (technologies_tbl (saved_database db s)) =
           map (\<lambda>tech. (1, tech, tick s)) (technologies s)"
  proof -
    have tbl: "technologies_tbl (saved_database db s) =
            filter (\<lambda>(g, _). g \<noteq> 1) (technologies_tbl db)
              @ map (\<lambda>tech. (1, tech, tick s)) (technologies s)"
      by (simp add: saved_database_def)
    have keys: "map (\<lambda>(_, tech_name, _). tech_name)
            (map (\<lambda>tech. (1::int, tech, tick s)) (technologies s)) = technologies s"
      by (simp add: comp_def)
    show ?thesis
      unfolding tbl
    proof (rule select_kept)
      show "\<forall>r \<in> set (filter (\<lambda>(g, _). g \<noteq> 1) (technologies_tbl db)). \<not> (case r of (g, _) \<Rightarrow> g = 1)"
        by auto
      show "\<forall>r \<in> set (map (\<lambda>tech. (1::int, tech, tick s)) (technologies s)). case r of (g, _) \<Rightarrow> g = 1"
        by auto
      show "sorted (map (\<lambda>(_, tech_name, _). tech_name)
              (map (\<lambda>tech. (1::int, tech, tick s)) (technologies s)))"
        unfolding keys by (rule st)
    qed
  qed
  have x: "entity_experience_tbl (saved_database db s) =
           filter (\<lambda>(g, _). g \<noteq> 1) (entity_experience_tbl db)
             @ concat (map (experience_rows 1) (map snd (entities s)))"
    by (simp add: saved_database_def)
  have rs: "fold (\<lambda>(_, name, a, pr) d.
                 dict_set name \<lparr>resource_name = name, amount = a, production_rate = pr\<rparr> d)
           (map (\<lambda>r. (1::int, resource_name r, amount r, production_rate r)) (map snd (resources s))) []
           = resources s"
    by (rule load_resources[OF kr])
  have es: "fold (\<lambda>row d. let e = load_entity (filter (\<lambda>(g, _). g \<noteq> 1) (entity_experience_tbl db)
             @ concat (map (experience_rows 1) (map snd (entities s)))) row
                        in dict_set (entity_id e) e d)
           (map (entity_row 1) (map snd (entities s))) [] = entities s"
    by (rule load_entities[OF ke xe]) auto
  have ts: "map (\<lambda>(_, tech_name, _). tech_name) (map (\<lambda>tech. (1::int, tech, tick s)) (technologies s))
            = technologies s"
    by (simp add: comp_def)
  show ?thesis
    unfolding load_game_state_def g r e t x
    by (simp only: list.case prod.case rs es ts) simp
qed

lemma keyed_by_modify:
  "(\<And>v. f (h v) = f v) \<Longrightarrow> keyed_by f d \<Longrightarrow> keyed_by f (dict_modify k h d)"
  unfolding keyed_by_def dict_modify_keys
  by (induction d) auto

lemma keyed_by_map:
  "(\<And>v. f (h v) = f v) \<Longrightarrow> keyed_by f d \<Longrightarrow> keyed_by f (map (\<lambda>(k, v). (k, h v)) d)"
  unfolding keyed_by_def
  by (induction d) (auto simp: image_iff)

lemma keyed_by_apply_production:
  "keyed_by resource_name rs \<Longrightarrow> keyed_by resource_name (apply_production rs)"
  unfolding apply_production_def
  by (rule keyed_by_map) simp_all

lemma apply_production_keys: "map fst (apply_production rs) = map fst rs"
  unfolding apply_production_def
  by (induction rs) auto

lemma gain_keys: "map fst (map (\<lambda>(k, e). (k, gain_experience e)) es) = map fst es"
  by (induction es) auto

lemma dict_set_keys:
  "map fst (dict_set k v d) = (if k \<in> set (map fst d) then map fst d else map fst d @ [k])"
  by (induction d) (force simp: image_iff)+

lemma dict_contains_keys: "dict_contains d k \<longleftrightarrow> k \<in> set (map fst d)"
  by (induction d) (auto simp: dict_contains_def)

lemma experience_keys_gain:
  "dict_contains (experience e) ''gathering'' \<Longrightarrow>
   map fst (experience (gain_experience e)) = map fst (experience e)"
  by (simp add: gain_experience_def dict_set_keys dict_contains_keys)

lemma entity_id_gain: "entity_id (gain_experience e) = entity_id e"
  by (simp add: gain_experience_def)

lemma tick_simulate_rest:
  "technologies (fst (snd (tick_simulate s g))) = technologies s"
  "prestige_tokens (fst (snd (tick_simulate s g))) = prestige_tokens s"
  "player_boost (fst (snd (tick_simulate s g))) = player_boost s"
  by (simp_all add: tick_simulate_eq update_production_rates_def)

lemma run_invariant_tick_simulate:
  assumes "run_invariant s"
  shows "run_invariant (fst (snd (tick_simulate s g)))"
proof -
  let ?s' = "fst (snd (tick_simulate s g))"
  have kr: "keyed_by resource_name (resources s)" and ke: "keyed_by entity_id (entities s)"
    and sr: "sorted (map fst (resources s))" and se: "sorted (map fst (entities s))"
    and xe: "list_all (\<lambda>(k, e). distinct (map fst (experience e)) \<and> sorted (map fst (experience e)))
               (entities s)"
    and dt: "distinct (technologies s)" "sorted (technologies s)"
    and nn: "0 \<le> tick s" "prestige_tokens s = 0"
    and ga: "list_all (\<lambda>(k, e). dict_contains (experience e) ''gathering'') (entities s)"
    using assms by (simp_all add: run_invariant_def ordered_state_def)
  have 1: "keyed_by resource_name (resources ?s')"
    unfolding tick_simulate_resources add_amount_def
    using kr by (auto intro!: keyed_by_apply_production keyed_by_modify)
  have 2: "sorted (map fst (resources ?s'))"
    unfolding tick_simulate_resources add_amount_def
    using sr by (simp add: apply_production_keys dict_modify_keys)
  have 3: "keyed_by entity_id (entities ?s')"
    unfolding tick_simulate_entities
    using ke by (rule keyed_by_map[rotated]) (rule entity_id_gain)
  have 4: "sorted (map fst (entities ?s'))"
    unfolding tick_simulate_entities gain_keys
    by (rule se)
  have same: "map fst (experience (gain_experience e)) = map fst (experience e)"
    if "(k, e) \<in> set (entities s)" for k e
  proof -
    have "dict_contains (experience e) ''gathering''"
      using ga that by (auto simp: list_all_iff)
    then show ?thesis by (rule experience_keys_gain)
  qed
  have 5: "list_all (\<lambda>(k, e). distinct (map fst (experience e)) \<and> sorted (map fst (experience e)))
             (entities ?s')"
    unfolding tick_simulate_entities
    using xe by (auto simp: list_all_iff same)
  have kept: "dict_contains (experience (gain_experience e)) ''gathering''"
    if "(k, e) \<in> set (entities s)" for k e
  proof -
    have "dict_contains (experience e) ''gathering''"
      using ga that by (auto simp: list_all_iff)
    then show ?thesis
      unfolding dict_contains_keys same[OF that] .
  qed
  have 6: "list_all (\<lambda>(k, e). dict_contains (experience e) ''gathering'') (entities ?s')"
    unfolding tick_simulate_entities
    by (auto simp: list_all_iff kept)
  show ?thesis
    using 1 2 3 4 5 6 dt nn
    by (simp add: run_invariant_def ordered_state_def tick_simulate_rest tick_simulate_tick)
qed

lemma boost_rest:
  "tick (snd (apply_player_boost s eid m)) = tick s"
  "entities (snd (apply_player_boost s eid m)) = entities s"
  "technologies (snd (apply_player_boost s eid m)) = technologies s"
  "prestige_tokens (snd (apply_player_boost s eid m)) = prestige_tokens s"
  "map fst (resources (snd (apply_player_boost s eid m))) = map fst (resources s)"
  by (simp_all add: apply_player_boost_def Let_def dict_modify_keys split: option.splits)

lemma run_invariant_boost:
  assumes "run_invariant s"
  shows "run_invariant (snd (apply_player_boost s eid m))"
proof -
  have "keyed_by resource_name (dict_modify ''energy'' (\<lambda>r. r\<lparr>amount := amount r + x\<rparr>) (resources s))"
    for x
    using assms by (auto simp: run_invariant_def ordered_state_def intro!: keyed_by_modify)
  then have "keyed_by resource_name (resources (snd (apply_player_boost s eid m)))"
    using assms
    by (auto simp: apply_player_boost_def run_invariant_def ordered_state_def Let_def
        split: option.splits)
  then show ?thesis
    using assms by (simp add: run_invariant_def ordered_state_def boost_rest)
qed

lemma run_invariant_new_game: "run_invariant (initialize_base_game new_GameState p0 p1 p2)"
  by (cases p0; cases p1; cases p2)
    (simp add: initialize_base_game_def new_GameState_def generate_entity_def run_invariant_def
      ordered_state_def keyed_by_def dict_contains_def)

lemma run_invariant_persistable: "run_invariant s \<Longrightarrow> tick s < 2 ^ 63 \<Longrightarrow> persistable s"
  by (simp add: run_invariant_def persistable_def sqlite_integer_def)

lemma reachable_invariant: "reachable s \<Longrightarrow> run_invariant s"
proof (induction rule: reachable.induct)
  case (new_game p0 p1 p2)
  show ?case by (rule run_invariant_new_game)
next
  case (after_tick gl g)
  then show ?case
    by (simp add: state_after_tick run_invariant_tick_simulate)
next
  case (after_boost s eid m)
  then show ?case by (simp add: run_invariant_boost)
next
  case (after_load s db db' s')
  have p: "persistable s"
    using after_load.IH save_fits[OF after_load.hyps(2)]
    by (simp add: run_invariant_def persistable_def)
  have "db' = saved_database db s"
    using after_load.hyps(2) save_persistable[OF p, of db] by simp
  moreover have "ordered_state s"
    using after_load.IH by (simp add: run_invariant_def)
  ultimately have "s' = s"
    using after_load.hyps(3) load_saved[of s db] by simp
  then show ?case
    using after_load.IH by simp
qed

lemma long_run_entity_step:
  "gain_experience (long_run_entity eid nm n) = long_run_entity eid nm (Suc n)"
  "gathering (long_run_entity eid nm n)"
  "entity_type (long_run_entity eid nm n) = ''gatherer''"
  "gathering_yield (long_run_entity eid nm n) = 1 + real n / 100"
  by (simp_all add: long_run_entity_def gain_experience_def gathering_def gathering_yield_def
      dict_get_def unit_traits_def field_simps)

lemma long_run_step:
  "fst (snd (tick_simulate (long_run_state n) g)) = long_run_state (Suc n)"
proof -
  have rate: "energy_rate (entities (long_run_state (Suc n))) = 3 + 3 * real (Suc n) / 100"
    by (simp add: energy_rate_eq long_run_state_def long_run_entity_step field_simps)
  have yield: "total_yield (map snd (entities (long_run_state n))) = 3 + 3 * real n / 100"
    by (simp add: total_yield_def long_run_state_def long_run_entity_step field_simps)
  have ents: "map (\<lambda>(k, e). (k, gain_experience e)) (entities (long_run_state n)) =
              entities (long_run_state (Suc n))"
    by (simp add: long_run_state_def long_run_entity_step)
  have pos: "0 < 3 + 3 * real (Suc n) / (100::real)"
    by (simp add: add_pos_nonneg)
  have amt: "10 + 6 * real n + 3 * (real n)\<^sup>2 / 100 + (3 + 3 * real n / 100)
               + (3 + 3 * real (Suc n) / 100)
             = 10 + 6 * real (Suc n) + 3 * (real (Suc n))\<^sup>2 / 100"
    by (simp add: power2_eq_square field_simps)
  have res: "resources (fst (snd (tick_simulate (long_run_state n) g))) =
             resources (long_run_state (Suc n))"
    unfolding tick_simulate_resources ents rate yield
    using pos amt
    by (simp add: long_run_state_def dict_contains_def add_amount_def apply_production_def)
  show ?thesis
    using res ents
    by (simp add: GameState.equality tick_simulate_entities tick_simulate_tick tick_simulate_rest
        long_run_state_def)
qed

lemma long_run_start: "long_run_state 0 = scenario_state"
  by (simp add: long_run_state_def long_run_entity_def scenario_state_eq generate_entity_def)

lemma reachable_long_run: "reachable (long_run_state n)"
proof (induction n)
  case 0
  show ?case
    unfolding long_run_start scenario_state_def by (rule reachable.new_game)
next
  case (Suc n)
  let ?gl = "\<lparr>database = empty_database, state = long_run_state n, auto_save_interval = 10\<rparr>"
  have "reachable (state ?gl)"
    using Suc by simp
  then have "reachable (state_after (GameLogic_tick ?gl no_discovery))"
    by (rule reachable.after_tick)
  then show ?case
    by (simp add: state_after_tick long_run_step)
qed

text \<open>
  C5 fails on the code: the tick counter of a run grows without bound, and once it has
  reached \<open>2 ^ 63\<close> it no longer fits the \<^verbatim>\<open>INTEGER\<close> column. The scenario after
  \<open>2 ^ 63\<close> ticks is a reachable state whose save raises, so nothing can be loaded back.
\<close>

theorem tick_beyond_integer_counterexample:
  "reachable (long_run_state (2 ^ 63)) \<and> tick (long_run_state (2 ^ 63)) = 2 ^ 63 \<and>
   save_game_state empty_database (long_run_state (2 ^ 63)) = Inl OverflowError"
proof -
  have t: "tick (long_run_state (2 ^ 63)) = 2 ^ 63"
    by (simp add: long_run_state_def)
  then have "save_game_state empty_database (long_run_state (2 ^ 63)) = Inl OverflowError"
    by (intro save_refused) (simp add: sqlite_integer_def)
  with t reachable_long_run[of "2 ^ 63"] show ?thesis by simp
qed

text \<open>
  C5, as the code behaves. For every reachable state whose tick counter is below
  \<open>2 ^ 63\<close>, and every prior content of the database, the save succeeds and loading slot 1
  from the saved database yields the state itself: the tick, the prestige tokens, the
  player boost, every resource, every entity with its traits and its experience dict, and
  the technologies. For a reachable state whose tick counter has reached \<open>2 ^ 63\<close> the save
  raises \<^verbatim>\<open>OverflowError\<close>.
\<close>

theorem save_load_roundtrip:
  assumes "reachable s"
  shows "if tick s < 2 ^ 63
         then \<exists>db'. save_game_state db s = Inr db' \<and> load_game_state db' 1 = Some s
         else save_game_state db s = Inl OverflowError"
proof (cases "tick s < 2 ^ 63")
  case True
  have inv: "run_invariant s"
    by (rule reachable_invariant[OF assms])
  then have "persistable s"
    using True by (rule run_invariant_persistable)
  moreover have "ordered_state s"
    using inv by (simp add: run_invariant_def)
  ultimately show ?thesis
    using True by (simp add: save_persistable load_saved)
next
  case False
  then have "save_game_state db s = Inl OverflowError"
    by (intro save_refused) (simp add: sqlite_integer_def)
  with False show ?thesis by simp
qed

theorem save_load_roundtrip_witness:
  "reachable (snd (apply_player_boost scenario_state ''entity_1'' 2)) \<and>
   (case save_game_state used_database (snd (apply_player_boost scenario_state ''entity_1'' 2)) of
      Inl err \<Rightarrow> False
    | Inr db' \<Rightarrow>
        load_game_state db' 1 = Some (snd (apply_player_boost scenario_state ''entity_1'' 2)))"
proof -
  have "reachable scenario_state"
    unfolding scenario_state_def by (rule reachable.new_game)
  then have r: "reachable (snd (apply_player_boost scenario_state ''entity_1'' 2))"
    by (rule reachable.after_boost)
  have t: "tick (snd (apply_player_boost scenario_state ''entity_1'' 2)) < 2 ^ 63"
    by (simp add: boost_rest scenario_state_eq)
  show ?thesis
    using save_load_roundtrip[OF r, of used_database] r t
    by auto
qed

end
